theory Spec2Isabelle
  imports Complex_Main "HOL-Library.AList"
begin

section \<open>Python values\<close>

text \<open>
  The development embeds \<^verbatim>\<open>backend/memory_store.py\<close> and the classification and
  feedback code of \<^verbatim>\<open>backend/agent.py\<close>. Exceptions are values of \<open>py_error\<close>; an
  operation that can raise returns \<open>py_error + 'a\<close>, and one that changes the store
  before it raises returns the changed store next to the error. numpy's \<^verbatim>\<open>float32\<close>
  and Python's \<^verbatim>\<open>float\<close> are idealised as \<open>real\<close>: rounding is not modelled, the NaN
  of a zero-by-zero division is.
\<close>

datatype py_error = NameError string | KeyError string | ExternalError string

definition truthy :: "string option \<Rightarrow> bool" where
  \<comment> \<open>\<^verbatim>\<open>if x\<close> for an \<^verbatim>\<open>Optional[str]\<close>: \<^verbatim>\<open>None\<close> and \<^verbatim>\<open>""\<close> are false.\<close>
  "truthy x = (case x of None \<Rightarrow> False | Some s \<Rightarrow> s \<noteq> [])"

definition py_or :: "string option \<Rightarrow> string option \<Rightarrow> string option" where
  \<comment> \<open>\<^verbatim>\<open>a or b\<close>\<close>
  "py_or a b = (if truthy a then a else b)"

fun py_join :: "string \<Rightarrow> string list \<Rightarrow> string" where
  "py_join sep [] = []"
| "py_join sep [x] = x"
| "py_join sep (x # y # ys) = x @ sep @ py_join sep (y # ys)"

definition truthy_strings :: "string option list \<Rightarrow> string list" where
  \<comment> \<open>\<^verbatim>\<open>[x for x in xs if x]\<close>\<close>
  "truthy_strings xs =
     concat (map (\<lambda>x. case x of None \<Rightarrow> [] | Some s \<Rightarrow> if s \<noteq> [] then [s] else []) xs)"

definition joined_text :: "string option \<Rightarrow> string option \<Rightarrow> string option \<Rightarrow> string" where
  \<comment> \<open>\<^verbatim>\<open>" \n ".join([x for x in [subject, sender, snippet] if x])\<close>\<close>
  "joined_text sb sn sp =
     py_join [CHR '' '', CHR 0x0A, CHR '' ''] (truthy_strings [sb, sn, sp])"

fun py_max_by :: "('a \<Rightarrow> 'b::linorder) \<Rightarrow> 'a \<Rightarrow> 'a list \<Rightarrow> 'a" where
  \<comment> \<open>\<^verbatim>\<open>max(xs, key=...)\<close> on a non-empty sequence \<open>best # xs\<close>: the first maximal element.\<close>
  "py_max_by key best [] = best"
| "py_max_by key best (x # xs) = py_max_by key (if key best < key x then x else best) xs"

section \<open>Vectors\<close>

type_synonym vec = "real list"

definition np_dot :: "vec \<Rightarrow> vec \<Rightarrow> real" where
  "np_dot u v = sum_list (map2 (*) u v)"

definition np_norm :: "vec \<Rightarrow> real" where
  \<comment> \<open>\<^verbatim>\<open>np.linalg.norm\<close>\<close>
  "np_norm v = sqrt (np_dot v v)"

definition vscale :: "real \<Rightarrow> vec \<Rightarrow> vec" where
  "vscale a v = map (\<lambda>x. a * x) v"

definition vadd :: "vec \<Rightarrow> vec \<Rightarrow> vec" where
  "vadd u v = map2 (+) u v"

fun vsum :: "vec list \<Rightarrow> vec" where
  "vsum [] = []"
| "vsum [v] = v"
| "vsum (v # w # vs) = vadd v (vsum (w # vs))"

definition eps :: real where
  \<comment> \<open>\<^verbatim>\<open>1e-8\<close>\<close>
  "eps = 1 / 10 ^ 8"

definition unit_normalize :: "vec \<Rightarrow> vec" where
  \<comment> \<open>\<^verbatim>\<open>norm = np.linalg.norm(v) + 1e-8; v / norm\<close>. The division is over the reals:
      the rounding of the cast to \<^verbatim>\<open>float32\<close> is not modelled. The length of the result,
      here below one and in \<^verbatim>\<open>float32\<close> one up to rounding, is used only to tell a zero
      vector from another.\<close>
  "unit_normalize v = vscale (1 / (np_norm v + eps)) v"

definition np_average :: "vec list \<Rightarrow> real list \<Rightarrow> vec" where
  \<comment> \<open>\<^verbatim>\<open>np.average(mat, axis=0, weights=weights)\<close>: the weighted sum of the rows over the
      sum of the weights.\<close>
  "np_average mat weights = vscale (1 / sum_list weights) (vsum (map2 vscale weights mat))"

definition cosine :: "vec \<Rightarrow> vec \<Rightarrow> real option" where
  \<comment> \<open>\<^verbatim>\<open>np.dot(a, b) / (np.linalg.norm(a) * np.linalg.norm(b))\<close>; a zero norm makes the
      quotient \<^verbatim>\<open>0/0\<close>, numpy's NaN, here \<open>None\<close>.\<close>
  "cosine a b =
     (if np_norm a * np_norm b = 0 then None
      else Some (np_dot a b / (np_norm a * np_norm b)))"

definition float_ge :: "real option \<Rightarrow> real \<Rightarrow> bool" where
  \<comment> \<open>\<^verbatim>\<open>x >= t\<close>; every comparison with NaN is false.\<close>
  "float_ge x t = (case x of None \<Rightarrow> False | Some r \<Rightarrow> t \<le> r)"

section \<open>The memory store\<close>

record LabeledEmail =
  message_id :: string
  subject :: "string option"
  sender :: "string option"
  snippet :: "string option"
  applied_label :: string
  accepted :: bool

text \<open>A row of the table \<^verbatim>\<open>rejected_labels\<close>; the autoincrement id is the position in
  the list, \<^verbatim>\<open>created_at\<close> is never read.\<close>

record RejectedLabel =
  rej_message_id :: string
  rej_subject :: "string option"
  rej_sender :: "string option"
  rej_snippet :: "string option"
  rejected_label :: string

text \<open>
  What the interpreter and numpy contribute to \<^verbatim>\<open>_embed\<close>: the built-in \<^verbatim>\<open>hash\<close> on
  strings of the running process, and the normal variates that
  \<^verbatim>\<open>np.random.default_rng(seed).normal(size=(dim,))\<close> draws, by seed and position.
\<close>

record py_runtime =
  hash_str :: "string \<Rightarrow> int"
  rng_normal :: "nat \<Rightarrow> nat \<Rightarrow> real"

text \<open>
  The state of a \<^verbatim>\<open>MemoryStore\<close>. \<open>model\<close> is \<open>None\<close> when loading the sentence
  transformer failed; otherwise it gives, for a text, the components of
  \<^verbatim>\<open>model.encode(text)\<close>, or \<open>None\<close> when the call raises. The tables are lists in
  row order. \<open>index\<close> holds the vectors of the FAISS index, \<open>ids\<close> is the attribute
  \<^verbatim>\<open>self.ids\<close> (\<open>None\<close> until \<^verbatim>\<open>_rebuild_index\<close> sets it), \<open>index_file\<close> is the content
  of \<^verbatim>\<open>faiss.index\<close> on disk.
\<close>

record MemoryStore =
  dim :: nat
  model :: "(string \<Rightarrow> (nat \<Rightarrow> real) option) option"
  labeled_emails :: "LabeledEmail list"
  rejected_labels :: "RejectedLabel list"
  index :: "vec list"
  ids :: "string list option"
  index_file :: "vec list option"

definition model_encode :: "MemoryStore \<Rightarrow> string \<Rightarrow> vec option" where
  \<comment> \<open>The \<^verbatim>\<open>try\<close> block of \<^verbatim>\<open>_embed\<close>: the normalised model output, or \<open>None\<close> when
      there is no model or \<^verbatim>\<open>encode\<close> raises.\<close>
  "model_encode st text =
     (case model st of
        None \<Rightarrow> None
      | Some enc \<Rightarrow>
          (case enc text of
             None \<Rightarrow> None
           | Some f \<Rightarrow> Some (unit_normalize (map f [0..<dim st]))))"

definition fallback_seed :: "py_runtime \<Rightarrow> string \<Rightarrow> nat" where
  \<comment> \<open>\<^verbatim>\<open>abs(hash(text)) % (2**32)\<close>\<close>
  "fallback_seed rt text = nat (\<bar>hash_str rt text\<bar> mod 2 ^ 32)"

definition fallback_embed :: "py_runtime \<Rightarrow> MemoryStore \<Rightarrow> string \<Rightarrow> vec" where
  "fallback_embed rt st text =
     unit_normalize (map (rng_normal rt (fallback_seed rt text)) [0..<dim st])"

definition embed :: "py_runtime \<Rightarrow> MemoryStore \<Rightarrow> string \<Rightarrow> vec" where
  \<comment> \<open>\<^verbatim>\<open>MemoryStore._embed\<close>, also \<^verbatim>\<open>embed_text\<close>\<close>
  "embed rt st text =
     (if text = [] then replicate (dim st) 0
      else (case model_encode st text of
              Some e \<Rightarrow> e
            | None \<Rightarrow> fallback_embed rt st text))"

definition row_embedding :: "py_runtime \<Rightarrow> MemoryStore \<Rightarrow> LabeledEmail \<Rightarrow> vec" where
  "row_embedding rt st r = embed rt st (joined_text (subject r) (sender r) (snippet r))"

subsection \<open>Centroids\<close>

definition accum_append ::
  "(string \<times> (vec \<times> real) list) list \<Rightarrow> string \<Rightarrow> vec \<times> real \<Rightarrow> (string \<times> (vec \<times> real) list) list" where
  \<comment> \<open>\<^verbatim>\<open>accum.setdefault(label, []).append(x)\<close> on a dict in insertion order\<close>
  "accum_append accum label x =
     AList.update label ((case map_of accum label of None \<Rightarrow> [] | Some xs \<Rightarrow> xs) @ [x]) accum"

definition accumulate ::
  "py_runtime \<Rightarrow> MemoryStore \<Rightarrow> LabeledEmail list \<Rightarrow> (string \<times> (vec \<times> real) list) list" where
  "accumulate rt st rows =
     foldl (\<lambda>accum r. accum_append accum (applied_label r)
                         (row_embedding rt st r, if accepted r then 5 else 1)) [] rows"

definition centroid_of :: "(vec \<times> real) list \<Rightarrow> vec" where
  "centroid_of vec_weights =
     (let vecs = map fst vec_weights;
          weights = map snd vec_weights;
          weights = map (\<lambda>w. w / sum_list weights) weights;
          weighted_mean = np_average vecs weights
      in unit_normalize weighted_mean)"

definition get_label_centroids :: "py_runtime \<Rightarrow> MemoryStore \<Rightarrow> (string \<times> vec) list" where
  "get_label_centroids rt st =
     (let rows = labeled_emails st in
      if rows = [] then []
      else map (\<lambda>(label, vec_weights). (label, centroid_of vec_weights))
             (filter (\<lambda>(label, vec_weights). vec_weights \<noteq> []) (accumulate rt st rows)))"

subsection \<open>Writing labelled examples and the index\<close>

definition save_index :: "MemoryStore \<Rightarrow> MemoryStore" where
  "save_index st = st\<lparr>index_file := Some (index st)\<rparr>"

definition rebuild_index :: "py_runtime \<Rightarrow> MemoryStore \<Rightarrow> MemoryStore" where
  \<comment> \<open>\<^verbatim>\<open>_rebuild_index\<close>; with no accepted row the index is emptied and \<^verbatim>\<open>self.ids\<close> is
      left as it was.\<close>
  "rebuild_index rt st =
     (let rows = filter accepted (labeled_emails st) in
      if rows = [] then save_index (st\<lparr>index := []\<rparr>)
      else save_index (st\<lparr>ids := Some (map message_id rows),
                            index := map (row_embedding rt st) rows\<rparr>))"

fun sql_upsert :: "LabeledEmail \<Rightarrow> LabeledEmail list \<Rightarrow> LabeledEmail list" where
  \<comment> \<open>\<^verbatim>\<open>INSERT ... ON CONFLICT(message_id) DO UPDATE SET ...\<close>: the row of the key is
      updated where it stands, a new key is appended.\<close>
  "sql_upsert e [] = [e]"
| "sql_upsert e (r # rows) =
     (if message_id r = message_id e then e # rows else r # sql_upsert e rows)"

definition sql_insert_or_replace :: "LabeledEmail \<Rightarrow> LabeledEmail list \<Rightarrow> LabeledEmail list" where
  \<comment> \<open>\<^verbatim>\<open>INSERT OR REPLACE\<close>: the row of the key is deleted and the new row inserted.\<close>
  "sql_insert_or_replace e rows = filter (\<lambda>r. message_id r \<noteq> message_id e) rows @ [e]"

definition upsert_labeled_email :: "py_runtime \<Rightarrow> MemoryStore \<Rightarrow> LabeledEmail \<Rightarrow> MemoryStore" where
  "upsert_labeled_email rt st email =
     rebuild_index rt (st\<lparr>labeled_emails := sql_upsert email (labeled_emails st)\<rparr>)"

subsection \<open>Module globals and the logging calls\<close>

text \<open>
  The names bound at module level in \<^verbatim>\<open>memory_store.py\<close>: its imports and its two
  classes. A function body that reads any other non-local, non-built-in name raises
  \<^verbatim>\<open>NameError\<close>. The store's own logger is the attribute \<^verbatim>\<open>self.logger\<close>.
\<close>

definition memory_store_globals :: "string list" where
  "memory_store_globals =
     [''os'', ''sqlite3'', ''logging'', ''dataclass'', ''List'', ''Optional'', ''Tuple'',
      ''Dict'', ''Set'', ''np'', ''faiss'', ''SentenceTransformer'', ''LabeledEmail'',
      ''MemoryStore'']"

definition load_global :: "string \<Rightarrow> py_error + unit" where
  "load_global name =
     (if name \<in> set memory_store_globals then Inr () else Inl (NameError name))"

definition mark_email_processed ::
  "MemoryStore \<Rightarrow> string \<Rightarrow> string \<Rightarrow> bool \<Rightarrow> MemoryStore \<times> (py_error + unit)" where
  \<comment> \<open>the insert is committed, then \<^verbatim>\<open>logger.info(...)\<close> is evaluated\<close>
  "mark_email_processed st mid label acc =
     (let st' = st\<lparr>labeled_emails :=
                    sql_insert_or_replace
                      \<lparr>message_id = mid, subject = None, sender = None, snippet = None,
                       applied_label = label, accepted = acc\<rparr>
                      (labeled_emails st)\<rparr>
      in (st', load_global ''logger''))"

definition store_rejected_label ::
  "MemoryStore \<Rightarrow> string \<Rightarrow> string option \<Rightarrow> string option \<Rightarrow> string option \<Rightarrow> string
     \<Rightarrow> MemoryStore \<times> (py_error + unit)" where
  "store_rejected_label st mid sb sn sp label =
     (let st' = st\<lparr>rejected_labels :=
                    rejected_labels st @
                      [\<lparr>rej_message_id = mid, rej_subject = sb, rej_sender = sn,
                        rej_snippet = sp, rejected_label = label\<rparr>]\<rparr>
      in (st', load_global ''logger''))"

definition rejected_similarity :: "py_runtime \<Rightarrow> MemoryStore \<Rightarrow> vec \<Rightarrow> RejectedLabel \<Rightarrow> real option" where
  "rejected_similarity rt st current_embedding r =
     cosine current_embedding
       (embed rt st (joined_text (rej_subject r) (rej_sender r) (rej_snippet r)))"

fun scan_rejected ::
  "py_runtime \<Rightarrow> MemoryStore \<Rightarrow> vec \<Rightarrow> real \<Rightarrow> RejectedLabel list \<Rightarrow> string set
     \<Rightarrow> py_error + string set" where
  \<comment> \<open>the \<^verbatim>\<open>for\<close> loop of \<^verbatim>\<open>get_rejected_labels_for_similar_emails\<close>\<close>
  "scan_rejected rt st cur thr [] acc = Inr acc"
| "scan_rejected rt st cur thr (r # rows) acc =
     (if float_ge (rejected_similarity rt st cur r) thr then
        (case load_global ''logger'' of
           Inl e \<Rightarrow> Inl e
         | Inr _ \<Rightarrow> scan_rejected rt st cur thr rows (insert (rejected_label r) acc))
      else scan_rejected rt st cur thr rows acc)"

definition get_rejected_labels_for_similar_emails ::
  "py_runtime \<Rightarrow> MemoryStore \<Rightarrow> string option \<Rightarrow> string option \<Rightarrow> string option \<Rightarrow> real
     \<Rightarrow> py_error + string set" where
  "get_rejected_labels_for_similar_emails rt st sb sn sp similarity_threshold =
     (let rows = rejected_labels st in
      if rows = [] then Inr {}
      else scan_rejected rt st (embed rt st (joined_text sb sn sp)) similarity_threshold rows {})"

subsection \<open>Reading the store\<close>

definition faiss_search :: "vec list \<Rightarrow> vec \<Rightarrow> nat \<Rightarrow> (real \<times> nat) list" where
  \<comment> \<open>\<^verbatim>\<open>IndexFlatIP.search(q, k)\<close>: the \<open>k\<close> best inner products with their positions,
      best first; equal scores are kept in index order.\<close>
  "faiss_search vectors q k =
     take k (sort_key (\<lambda>(score, i). - score) (zip (map (np_dot q) vectors) [0..<length vectors]))"

definition similar ::
  "py_runtime \<Rightarrow> MemoryStore \<Rightarrow> string option \<Rightarrow> string option \<Rightarrow> string option \<Rightarrow> nat
     \<Rightarrow> (string \<times> real) list" where
  "similar rt st sb sn sp k =
     (if index st = [] then []
      else
        (let q = embed rt st (joined_text sb sn sp);
             hits = faiss_search (index st) q (min k (max 1 (length (index st))));
             known = (case ids st of None \<Rightarrow> [] | Some xs \<Rightarrow> xs)
         in concat (map (\<lambda>(score, i).
                      if i < length known \<and> known ! i \<noteq> [] then [(known ! i, score)] else [])
                    hits)))"

definition get_label_for_message :: "MemoryStore \<Rightarrow> string \<Rightarrow> string option" where
  "get_label_for_message st mid =
     (case filter (\<lambda>r. message_id r = mid) (labeled_emails st) of
        [] \<Rightarrow> None
      | r # _ \<Rightarrow> Some (applied_label r))"

definition get_messages_by_ids :: "MemoryStore \<Rightarrow> string list \<Rightarrow> LabeledEmail list" where
  \<comment> \<open>SQL leaves the order of the rows open; the model returns them in table order.\<close>
  "get_messages_by_ids st wanted =
     (if wanted = [] then [] else filter (\<lambda>r. message_id r \<in> set wanted) (labeled_emails st))"

definition get_processed_email_ids :: "MemoryStore \<Rightarrow> string set" where
  "get_processed_email_ids st = message_id ` set (labeled_emails st)"

section \<open>The agent\<close>

text \<open>
  A message is the dict the Gmail client returns. Every message that reaches the
  functions below has the key \<^verbatim>\<open>"id"\<close> with a string value (\<^verbatim>\<open>node_classify\<close> skips a
  message without one, \<^verbatim>\<open>run_labeling_flow\<close> builds \<^verbatim>\<open>{"id": msg_id}\<close>), so the id is a
  field of its own and \<open>msg_fields\<close> holds the other keys; a value may be \<^verbatim>\<open>None\<close>.
\<close>

record message =
  msg_id :: string
  msg_fields :: "(string \<times> string option) list"

definition msg_get :: "message \<Rightarrow> string \<Rightarrow> string option" where
  \<comment> \<open>\<^verbatim>\<open>msg.get(key)\<close>\<close>
  "msg_get msg key = (case map_of (msg_fields msg) key of None \<Rightarrow> None | Some v \<Rightarrow> v)"

definition msg_get_default :: "message \<Rightarrow> string \<Rightarrow> string \<Rightarrow> string option" where
  \<comment> \<open>\<^verbatim>\<open>msg.get(key, default)\<close>: the default only replaces a missing key\<close>
  "msg_get_default msg key d = (case map_of (msg_fields msg) key of None \<Rightarrow> Some d | Some v \<Rightarrow> v)"

definition msg_len_keys :: "message \<Rightarrow> nat" where
  \<comment> \<open>\<^verbatim>\<open>len(msg.keys())\<close>\<close>
  "msg_len_keys msg = Suc (length (remdups (map fst (msg_fields msg))))"

record gmail_label =
  lb_id :: string
  lb_name :: string

definition id_by_name_of :: "gmail_label list \<Rightarrow> (string \<rightharpoonup> string)" where
  \<comment> \<open>\<^verbatim>\<open>{lb["name"]: lb["id"] for lb in labels_api}\<close>\<close>
  "id_by_name_of labels_api = foldl (\<lambda>m lb. m(lb_name lb \<mapsto> lb_id lb)) Map.empty labels_api"

datatype suggestion_source = Centroid | Memory_similar | Memory | Llm

text \<open>A suggestion dict. The rationale text and the display of the scores (the ten
  best, sorted, as percentages rounded to one decimal) are presentation;
  \<open>sugg_scores\<close> holds the score map itself.\<close>

record suggestion =
  sugg_message :: message
  suggested_label :: "string option"
  label_id :: "string option"
  sugg_source :: suggestion_source
  sugg_scores :: "(string \<times> real) list"

subsection \<open>Classification: \<^verbatim>\<open>node_classify\<close>\<close>

definition count_labels :: "LabeledEmail list \<Rightarrow> (string \<times> nat) list" where
  "count_labels similar_examples =
     foldl (\<lambda>counts ex.
              if applied_label ex = [] then counts
              else AList.update (applied_label ex)
                     ((case map_of counts (applied_label ex) of None \<Rightarrow> 0 | Some c \<Rightarrow> c) + 1)
                     counts)
       [] similar_examples"

definition majority_label_from_similar :: "LabeledEmail list \<Rightarrow> string option" where
  "majority_label_from_similar similar_examples =
     (case count_labels similar_examples of
        [] \<Rightarrow> None
      | c # cs \<Rightarrow> Some (fst (py_max_by snd c cs)))"

definition score_labels ::
  "(string \<times> vec) list \<Rightarrow> string set \<Rightarrow> vec \<Rightarrow> string list \<Rightarrow> (string \<times> real) list" where
  \<comment> \<open>the \<^verbatim>\<open>for label in labels\<close> loop that fills \<^verbatim>\<open>score_map\<close>\<close>
  "score_labels centroids rejected q labels =
     foldl (\<lambda>score_map label.
              if label \<in> rejected then score_map
              else (case map_of centroids label of
                      None \<Rightarrow> score_map
                    | Some c \<Rightarrow> AList.update label ((np_dot q c + 1) / 2) score_map))
       [] labels"

definition query_embedding :: "py_runtime \<Rightarrow> MemoryStore \<Rightarrow> message \<Rightarrow> vec" where
  "query_embedding rt st msg =
     embed rt st (joined_text (msg_get msg ''subject'') (msg_get msg ''from'') (msg_get msg ''snippet''))"

definition centroid_scoring ::
  "py_runtime \<Rightarrow> MemoryStore \<Rightarrow> message \<Rightarrow> string list \<Rightarrow> real
     \<Rightarrow> py_error + (string option \<times> (string \<times> real) list)" where
  "centroid_scoring rt st msg labels threshold =
     (let centroids = get_label_centroids rt st in
      if centroids = [] then Inr (None, [])
      else
        (case get_rejected_labels_for_similar_emails rt st
                (msg_get_default msg ''subject'' []) (msg_get_default msg ''from'' [])
                (msg_get_default msg ''snippet'' []) (7 / 10) of
           Inl e \<Rightarrow> Inl e
         | Inr rejected \<Rightarrow>
             (case score_labels centroids rejected (query_embedding rt st msg) labels of
                [] \<Rightarrow> Inr (None, [])
              | x # xs \<Rightarrow>
                  (let best = py_max_by snd x xs in
                   if threshold \<le> snd best then Inr (Some (fst best), x # xs)
                   else Inr (None, x # xs)))))"

text \<open>
  The generative tier: \<^verbatim>\<open>build_prompt\<close>, \<^verbatim>\<open>ollama_chat\<close> and the parsing of the reply,
  as one external function of the message, the label names and the similar examples.
  It gives the extracted label and rationale, or \<open>None\<close> when the call fails, the reply
  is empty or no label can be extracted.
\<close>

type_synonym generative = "message \<Rightarrow> string list \<Rightarrow> LabeledEmail list \<Rightarrow> (string \<times> string) option"

definition memory_similar_examples :: "py_runtime \<Rightarrow> MemoryStore \<Rightarrow> message \<Rightarrow> LabeledEmail list" where
  "memory_similar_examples rt st msg =
     get_messages_by_ids st
       (map fst (similar rt st (msg_get msg ''subject'') (msg_get msg ''from'')
                   (msg_get msg ''snippet'') 5))"

definition after_centroid ::
  "py_runtime \<Rightarrow> MemoryStore \<Rightarrow> generative \<Rightarrow> gmail_label list \<Rightarrow> (string \<times> real) list
     \<Rightarrow> message \<Rightarrow> suggestion option" where
  \<comment> \<open>steps 2 and 3 of the loop body: the majority of the similar accepted examples,
      then the generative tier\<close>
  "after_centroid rt st llm labels_api score_map msg =
     (let label_names = map lb_name labels_api;
          similar_examples = memory_similar_examples rt st msg;
          majority_lbl = majority_label_from_similar similar_examples
      in if truthy majority_lbl \<and> majority_lbl \<in> Some ` set label_names then
           Some \<lparr>sugg_message = msg, suggested_label = majority_lbl,
                 label_id = (case majority_lbl of None \<Rightarrow> None
                             | Some l \<Rightarrow> id_by_name_of labels_api l),
                 sugg_source = Memory_similar, sugg_scores = score_map\<rparr>
         else
           (case llm msg label_names similar_examples of
              None \<Rightarrow> None
            | Some (label_name, rationale) \<Rightarrow>
                if label_name = [] then None
                else Some \<lparr>sugg_message = msg, suggested_label = Some label_name,
                           label_id = id_by_name_of labels_api label_name,
                           sugg_source = Llm, sugg_scores = []\<rparr>))"

definition classify_message ::
  "py_runtime \<Rightarrow> MemoryStore \<Rightarrow> generative \<Rightarrow> gmail_label list \<Rightarrow> real option \<Rightarrow> message
     \<Rightarrow> py_error + suggestion option" where
  \<comment> \<open>the body of the \<^verbatim>\<open>for msg in messages\<close> loop of \<^verbatim>\<open>node_classify\<close>, for a message
      with an id; \<open>score_threshold\<close> is \<^verbatim>\<open>state.get("score_threshold")\<close>\<close>
  "classify_message rt st llm labels_api score_threshold msg =
     (let threshold = (case score_threshold of None \<Rightarrow> 40 / 100 | Some t \<Rightarrow> t) in
      case centroid_scoring rt st msg (map lb_name labels_api) threshold of
        Inl e \<Rightarrow> Inl e
      | Inr (best_label, score_map) \<Rightarrow>
          if truthy best_label then
            Inr (Some \<lparr>sugg_message = msg, suggested_label = best_label,
                       label_id = (case best_label of None \<Rightarrow> None
                                   | Some l \<Rightarrow> id_by_name_of labels_api l),
                       sugg_source = Centroid, sugg_scores = score_map\<rparr>)
          else Inr (after_centroid rt st llm labels_api score_map msg))"

fun node_classify ::
  "py_runtime \<Rightarrow> MemoryStore \<Rightarrow> generative \<Rightarrow> gmail_label list \<Rightarrow> real option \<Rightarrow> message list
     \<Rightarrow> py_error + suggestion list" where
  \<comment> \<open>the loop: a message without id is skipped, an exception ends the node\<close>
  "node_classify rt st llm labels_api score_threshold [] = Inr []"
| "node_classify rt st llm labels_api score_threshold (msg # messages) =
     (if msg_id msg = [] then node_classify rt st llm labels_api score_threshold messages
      else
        (case classify_message rt st llm labels_api score_threshold msg of
           Inl e \<Rightarrow> Inl e
         | Inr sg \<Rightarrow>
             (case node_classify rt st llm labels_api score_threshold messages of
                Inl e \<Rightarrow> Inl e
              | Inr rest \<Rightarrow> Inr ((case sg of None \<Rightarrow> [] | Some x \<Rightarrow> [x]) @ rest))))"

subsection \<open>Feedback: \<^verbatim>\<open>node_apply_and_update\<close>\<close>

text \<open>The Gmail client is external; each call gives its result or the exception it
  raises.\<close>

record gmail_client =
  list_labels :: "py_error + gmail_label list"
  ensure_label :: "string \<Rightarrow> py_error + string"
  apply_label :: "string \<Rightarrow> string \<Rightarrow> py_error + bool"
  get_message_by_id :: "string \<Rightarrow> py_error + message"

text \<open>An entry of \<^verbatim>\<open>approvals\<close>: \<^verbatim>\<open>bool(decision.get("approved", False))\<close> and
  \<^verbatim>\<open>decision.get("final_label")\<close>.\<close>

record decision =
  dec_approved :: bool
  dec_final_label :: "string option"

record apply_state =
  store :: MemoryStore
  id_by_name :: "string \<rightharpoonup> string"
  applied_count :: nat
  memory_updated_count :: nat

definition apply_gmail_label :: "gmail_client \<Rightarrow> apply_state \<Rightarrow> string \<Rightarrow> string \<Rightarrow> apply_state" where
  \<comment> \<open>the first \<^verbatim>\<open>try\<close> block of an approved decision; an exception is logged and the
      block left\<close>
  "apply_gmail_label gmail s mid final_label =
     (case (case id_by_name s final_label of
              Some i \<Rightarrow> if i \<noteq> [] then Inr (i, s) else
                (case ensure_label gmail final_label of
                   Inl e \<Rightarrow> Inl e
                 | Inr n \<Rightarrow> Inr (n, s\<lparr>id_by_name := (id_by_name s)(final_label \<mapsto> n)\<rparr>))
            | None \<Rightarrow>
                (case ensure_label gmail final_label of
                   Inl e \<Rightarrow> Inl e
                 | Inr n \<Rightarrow> Inr (n, s\<lparr>id_by_name := (id_by_name s)(final_label \<mapsto> n)\<rparr>))) of
        Inl e \<Rightarrow> s
      | Inr (lid, s') \<Rightarrow>
          (case apply_label gmail mid lid of
             Inl e \<Rightarrow> s'
           | Inr ok \<Rightarrow> s'\<lparr>applied_count := applied_count s' + 1\<rparr>))"

definition final_label_of :: "(string \<rightharpoonup> decision) \<Rightarrow> suggestion \<Rightarrow> string option" where
  \<comment> \<open>\<^verbatim>\<open>decision.get("final_label") or s.get("suggested_label")\<close>\<close>
  "final_label_of approvals sg =
     py_or (case approvals (msg_id (sugg_message sg)) of None \<Rightarrow> None | Some d \<Rightarrow> dec_final_label d)
       (suggested_label sg)"

definition approved_of :: "(string \<rightharpoonup> decision) \<Rightarrow> suggestion \<Rightarrow> bool" where
  "approved_of approvals sg =
     (case approvals (msg_id (sugg_message sg)) of None \<Rightarrow> False | Some d \<Rightarrow> dec_approved d)"

definition full_message :: "gmail_client \<Rightarrow> message \<Rightarrow> message" where
  \<comment> \<open>\<^verbatim>\<open>if len(msg.keys()) <= 1\<close>: the details are fetched; on an exception the message
      stays as it is\<close>
  "full_message gmail msg =
     (if msg_len_keys msg \<le> 1 then
        (case get_message_by_id gmail (msg_id msg) of Inl e \<Rightarrow> msg | Inr full_msg \<Rightarrow> full_msg)
      else msg)"

definition apply_suggestion ::
  "py_runtime \<Rightarrow> gmail_client \<Rightarrow> (string \<rightharpoonup> decision) \<Rightarrow> apply_state \<Rightarrow> suggestion \<Rightarrow> apply_state" where
  \<comment> \<open>the body of the \<^verbatim>\<open>for s in suggestions\<close> loop; every exception of the store is
      caught and logged by the agent, whose own module does bind \<^verbatim>\<open>logger\<close>\<close>
  "apply_suggestion rt gmail approvals s sg =
     (let mid = msg_id (sugg_message sg);
          approved = approved_of approvals sg;
          final_label = (case final_label_of approvals sg of None \<Rightarrow> [] | Some l \<Rightarrow> l);
          s1 = (if approved \<and> final_label \<noteq> [] then apply_gmail_label gmail s mid final_label else s);
          msg = full_message gmail (sugg_message sg);
          s2 = (if approved \<and> final_label \<noteq> [] then
                  s1\<lparr>store := upsert_labeled_email rt (store s1)
                                 \<lparr>message_id = mid, subject = msg_get msg ''subject'',
                                  sender = msg_get msg ''from'', snippet = msg_get msg ''snippet'',
                                  applied_label = final_label, accepted = True\<rparr>,
                      memory_updated_count := memory_updated_count s1 + 1\<rparr>
                else if \<not> approved \<and> final_label \<noteq> [] then
                  s1\<lparr>store := fst (store_rejected_label (store s1) mid
                                     (msg_get_default msg ''subject'' [])
                                     (msg_get_default msg ''from'' [])
                                     (msg_get_default msg ''snippet'' []) final_label)\<rparr>
                else s1)
      in s2\<lparr>store := fst (mark_email_processed (store s2) mid
                            (if final_label \<noteq> [] then final_label else ''Uncategorized'')
                            approved)\<rparr>)"

definition node_apply_and_update ::
  "py_runtime \<Rightarrow> gmail_client \<Rightarrow> (string \<rightharpoonup> decision) \<Rightarrow> MemoryStore \<Rightarrow> suggestion list \<Rightarrow> apply_state" where
  "node_apply_and_update rt gmail approvals st suggestions =
     (case list_labels gmail of
        Inl e \<Rightarrow> \<lparr>store = st, id_by_name = Map.empty, applied_count = 0, memory_updated_count = 0\<rparr>
      | Inr labels_api \<Rightarrow>
          foldl (apply_suggestion rt gmail approvals)
            \<lparr>store = st, id_by_name = id_by_name_of labels_api, applied_count = 0,
             memory_updated_count = 0\<rparr>
            suggestions)"

subsection \<open>Re-suggestion: \<^verbatim>\<open>_classify_single_email_with_rejected\<close>\<close>

text \<open>
  The generative tier of this flow: the prompt is
  \<^verbatim>\<open>build_prompt_with_rejected_context(msg, labels, rejected_suggestions, force_different)\<close>,
  a function of its four arguments; the external part is \<^verbatim>\<open>ollama_chat\<close> with the
  parsing of the reply up to \<^verbatim>\<open>result.get("suggested_label", "").strip()\<close>. It gives
  the label (possibly empty) or the exception raised on the way.
\<close>

record llm_request =
  req_msg :: message
  req_labels :: "string list"
  req_rejected :: "string list"
  force_different :: bool

type_synonym rejected_llm = "llm_request \<Rightarrow> py_error + string"

definition best_above :: "real \<Rightarrow> (string \<times> real) list \<Rightarrow> string option" where
  \<comment> \<open>the loop that starts at \<^verbatim>\<open>best_label = None\<close>, \<^verbatim>\<open>best_score = 0.0\<close>\<close>
  "best_above threshold score_map =
     fst (foldl (\<lambda>(best_label, best_score) (label, score).
                   if best_score < score \<and> threshold \<le> score then (Some label, score)
                   else (best_label, best_score))
            (None, 0) score_map)"

definition centroid_scoring_plain ::
  "py_runtime \<Rightarrow> MemoryStore \<Rightarrow> message \<Rightarrow> string list \<Rightarrow> real
     \<Rightarrow> string option \<times> (string \<times> real) list" where
  \<comment> \<open>the local \<^verbatim>\<open>centroid_scoring\<close> of this flow: it consults no stored rejection, which
      is \<open>score_labels\<close> with nothing to skip\<close>
  "centroid_scoring_plain rt st msg labels threshold =
     (let centroids = get_label_centroids rt st in
      if centroids = [] then (None, [])
      else
        (let score_map = score_labels centroids {} (query_embedding rt st msg) labels
         in (best_above threshold score_map, score_map)))"

definition classify_single_email_with_rejected ::
  "py_runtime \<Rightarrow> MemoryStore \<Rightarrow> rejected_llm \<Rightarrow> message \<Rightarrow> string list \<Rightarrow> (string \<rightharpoonup> string)
     \<Rightarrow> string list \<Rightarrow> real \<Rightarrow> suggestion option" where
  "classify_single_email_with_rejected rt st llm msg label_names ibn rejected_suggestions threshold =
     (let (best_label, score_map) = centroid_scoring_plain rt st msg label_names threshold in
      if truthy best_label \<and> best_label \<notin> Some ` set rejected_suggestions then
        Some \<lparr>sugg_message = msg, suggested_label = best_label,
              label_id = (case best_label of None \<Rightarrow> None | Some l \<Rightarrow> ibn l),
              sugg_source = Centroid, sugg_scores = score_map\<rparr>
      else
        (let memory_label = get_label_for_message st (msg_id msg) in
         if truthy memory_label \<and> memory_label \<notin> Some ` set rejected_suggestions then
           Some \<lparr>sugg_message = msg, suggested_label = memory_label,
                 label_id = (case memory_label of None \<Rightarrow> None | Some l \<Rightarrow> ibn l),
                 sugg_source = Memory, sugg_scores = []\<rparr>
         else
           (case llm \<lparr>req_msg = msg, req_labels = label_names,
                      req_rejected = rejected_suggestions, force_different = False\<rparr> of
              Inl e \<Rightarrow> None
            | Inr first_label \<Rightarrow>
                (case (if first_label \<in> set rejected_suggestions then
                         llm \<lparr>req_msg = msg, req_labels = label_names,
                              req_rejected = rejected_suggestions, force_different = True\<rparr>
                       else Inr first_label) of
                   Inl e \<Rightarrow> None
                 | Inr lbl \<Rightarrow>
                     if lbl \<noteq> [] then
                       Some \<lparr>sugg_message = msg, suggested_label = Some lbl, label_id = ibn lbl,
                             sugg_source = Llm, sugg_scores = []\<rparr>
                     else None))))"

section \<open>Auxiliary notions\<close>

text \<open>The embeddings and weights of the rows that bear a label, in row order: what the
  accumulation loop of \<^verbatim>\<open>get_label_centroids\<close> collects under that label.\<close>

definition label_examples :: "py_runtime \<Rightarrow> MemoryStore \<Rightarrow> string \<Rightarrow> LabeledEmail list \<Rightarrow> (vec \<times> real) list" where
  "label_examples rt st l rows =
     map (\<lambda>r. (row_embedding rt st r, if accepted r then 5 else 1))
       (filter (\<lambda>r. applied_label r = l) rows)"

text \<open>
  The operation \<^verbatim>\<open>getRejectedLabelsForSimilarMessages\<close> as the specification words it:
  the rejected labels of the stored records whose cosine similarity to the query meets
  the threshold. It is the set that the loop of
  \<^verbatim>\<open>get_rejected_labels_for_similar_emails\<close> collects.
\<close>

definition getRejectedLabelsForSimilarMessages ::
  "py_runtime \<Rightarrow> MemoryStore \<Rightarrow> string option \<Rightarrow> string option \<Rightarrow> string option \<Rightarrow> real
     \<Rightarrow> string set" where
  "getRejectedLabelsForSimilarMessages rt st sb sn sp similarityThreshold =
     rejected_label `
       {r \<in> set (rejected_labels st).
          float_ge (cosine (embed rt st (joined_text sb sn sp))
                      (embed rt st (joined_text (rej_subject r) (rej_sender r) (rej_snippet r))))
            similarityThreshold}"

text \<open>The weighted mean of vectors: the sum of the vectors, each times its weight, over
  the sum of the weights.\<close>

definition weighted_mean :: "(vec \<times> real) list \<Rightarrow> vec" where
  "weighted_mean vws =
     vscale (1 / sum_list (map snd vws)) (vsum (map (\<lambda>(v, w). vscale w v) vws))"

section \<open>Example states\<close>

definition init_store :: "(string \<Rightarrow> (nat \<Rightarrow> real) option) option \<Rightarrow> MemoryStore" where
  "init_store m =
     \<lparr>dim = 384, model = m, labeled_emails = [], rejected_labels = [], index = [],
      ids = None, index_file = None\<rparr>"

definition basis :: "nat \<Rightarrow> nat \<Rightarrow> real" where
  "basis k i = (if i = k then 1 else 0)"

definition example_runtime :: py_runtime where
  "example_runtime = \<lparr>hash_str = (\<lambda>s. int (length s)), rng_normal = (\<lambda>seed. basis (seed mod 384))\<rparr>"

definition example_encoder :: "string \<Rightarrow> (nat \<Rightarrow> real) option" where
  "example_encoder text = Some (basis (length text mod 2))"

definition rejected_store :: MemoryStore where
  "rejected_store =
     fst (store_rejected_label (init_store (Some example_encoder)) ''m1''
            (Some ''Invoice 42'') None None ''Work'')"

definition example_gmail :: gmail_client where
  "example_gmail =
     \<lparr>list_labels = Inr [\<lparr>lb_id = ''Label_1'', lb_name = ''Work''\<rparr>],
      ensure_label = (\<lambda>name. Inr (''Label_'' @ name)),
      apply_label = (\<lambda>mid lid. Inr True),
      get_message_by_id = (\<lambda>mid. Inr \<lparr>msg_id = mid, msg_fields = []\<rparr>)\<rparr>"

definition example_message :: message where
  "example_message =
     \<lparr>msg_id = ''m1'',
      msg_fields = [(''subject'', Some ''Invoice 42''), (''from'', Some ''billing@example.com''),
                    (''snippet'', Some ''Your invoice is attached'')]\<rparr>"

definition example_suggestion :: suggestion where
  "example_suggestion =
     \<lparr>sugg_message = example_message, suggested_label = Some ''Work'',
      label_id = Some ''Label_1'', sugg_source = Llm, sugg_scores = []\<rparr>"

definition approve_m1 :: "string \<rightharpoonup> decision" where
  "approve_m1 = [''m1'' \<mapsto> \<lparr>dec_approved = True, dec_final_label = None\<rparr>]"

definition reject_m1 :: "string \<rightharpoonup> decision" where
  "reject_m1 = [''m1'' \<mapsto> \<lparr>dec_approved = False, dec_final_label = None\<rparr>]"

definition start_state :: apply_state where
  "start_state =
     \<lparr>store = init_store (Some example_encoder),
      id_by_name = id_by_name_of [\<lparr>lb_id = ''Label_1'', lb_name = ''Work''\<rparr>],
      applied_count = 0, memory_updated_count = 0\<rparr>"

definition stubborn_llm :: rejected_llm where
  "stubborn_llm req = Inr ''Work''"

definition example_row :: LabeledEmail where
  "example_row =
     \<lparr>message_id = ''m1'', subject = Some ''Invoice 42'', sender = Some ''billing@example.com'',
      snippet = None, applied_label = ''Work'', accepted = True\<rparr>"

definition labelled_store :: MemoryStore where
  "labelled_store =
     upsert_labeled_email example_runtime (init_store (Some example_encoder)) example_row"

definition textless_message :: message where
  "textless_message = \<lparr>msg_id = ''m2'', msg_fields = [(''subject'', None), (''snippet'', Some [])]\<rparr>"

definition work_labels :: "gmail_label list" where
  "work_labels = [\<lparr>lb_id = ''Label_1'', lb_name = ''Work''\<rparr>]"

definition silent_llm :: generative where
  "silent_llm msg names examples = None"

definition rejected_and_labelled_store :: MemoryStore where
  "rejected_and_labelled_store =
     fst (store_rejected_label labelled_store ''m1'' (Some ''Invoice 42'') None None ''Work'')"

definition subject_only_message :: message where
  "subject_only_message = \<lparr>msg_id = ''m3'', msg_fields = [(''subject'', Some ''Invoice 42'')]\<rparr>"

definition two_example_store :: MemoryStore where
  "two_example_store =
     upsert_labeled_email example_runtime labelled_store
       \<lparr>message_id = ''m2'', subject = Some ''Receipt'', sender = None, snippet = None,
        applied_label = ''Work'', accepted = False\<rparr>"

definition processed_store :: MemoryStore where
  "processed_store = fst (mark_email_processed (init_store (Some example_encoder)) ''m1'' ''Work'' True)"

definition other_rejected_store :: MemoryStore where
  "other_rejected_store =
     fst (store_rejected_label labelled_store ''m9'' (Some ''Invoice 42'') None None ''Other'')"

text \<open>Two runs of the program that differ in the interpreter's string hash only.\<close>

definition first_run :: py_runtime where
  "first_run = \<lparr>hash_str = (\<lambda>s. 1), rng_normal = (\<lambda>seed. basis (seed mod 384))\<rparr>"

definition second_run :: py_runtime where
  "second_run = \<lparr>hash_str = (\<lambda>s. 2), rng_normal = (\<lambda>seed. basis (seed mod 384))\<rparr>"

section \<open>Facts about vectors\<close>

lemma np_dot_Nil [simp]: "np_dot [] v = 0" "np_dot u [] = 0"
  by (simp_all add: np_dot_def)

lemma np_dot_Cons [simp]: "np_dot (x # u) (y # v) = x * y + np_dot u v"
  by (simp add: np_dot_def)

lemma np_dot_replicate_zero_left [simp]: "np_dot (replicate n 0) v = 0"
proof (induction n arbitrary: v)
  case 0
  show ?case by simp
next
  case (Suc n)
  show ?case by (cases v) (simp_all add: Suc.IH)
qed

lemma np_dot_commute: "np_dot u v = np_dot v u"
proof (induction u arbitrary: v)
  case Nil
  show ?case by simp
next
  case (Cons x u)
  show ?case by (cases v) (simp_all add: Cons.IH)
qed

lemma np_dot_replicate_zero_right [simp]: "np_dot v (replicate n 0) = 0"
  using np_dot_commute [of v "replicate n 0"] by simp

lemma np_dot_vscale_left: "np_dot (vscale a u) v = a * np_dot u v"
proof (induction u arbitrary: v)
  case Nil
  show ?case by (simp add: vscale_def)
next
  case (Cons x u)
  have step: "vscale a (x # u) = (a * x) # vscale a u" by (simp add: vscale_def)
  show ?case
  proof (cases v)
    case Nil
    then show ?thesis by simp
  next
    case (Cons y w)
    then show ?thesis using Cons.IH [of w] by (simp add: step algebra_simps)
  qed
qed

lemma np_dot_vscale_right: "np_dot u (vscale a v) = a * np_dot u v"
  using np_dot_vscale_left [of a v u] by (simp add: np_dot_commute)

lemma np_dot_self_nonneg: "0 \<le> np_dot v v"
  by (induction v) simp_all

lemma np_norm_nonneg: "0 \<le> np_norm v"
  by (simp add: np_norm_def np_dot_self_nonneg)

lemma np_norm_vscale: "np_norm (vscale a v) = \<bar>a\<bar> * np_norm v"
proof -
  have "np_dot (vscale a v) (vscale a v) = a\<^sup>2 * np_dot v v"
    by (simp add: np_dot_vscale_left np_dot_vscale_right power2_eq_square)
  then show ?thesis
    by (simp add: np_norm_def real_sqrt_mult)
qed

lemma eps_pos: "0 < eps"
  by (simp add: eps_def)

lemma np_norm_unit_normalize: "np_norm (unit_normalize v) = np_norm v / (np_norm v + eps)"
proof -
  have "0 < np_norm v + eps" using np_norm_nonneg [of v] eps_pos by linarith
  then show ?thesis by (simp add: unit_normalize_def np_norm_vscale)
qed

lemma np_norm_replicate_zero [simp]: "np_norm (replicate n 0) = 0"
  by (simp add: np_norm_def)

lemma unit_normalize_replicate_zero [simp]: "unit_normalize (replicate n 0) = replicate n 0"
  by (simp add: unit_normalize_def vscale_def)

lemma cosine_self: "np_norm v \<noteq> 0 \<Longrightarrow> cosine v v = Some 1"
proof -
  assume nz: "np_norm v \<noteq> 0"
  have sq: "np_norm v * np_norm v = np_dot v v"
    by (simp add: np_norm_def np_dot_self_nonneg)
  have "np_dot v v \<noteq> 0" using nz by (auto simp: np_norm_def)
  with sq show ?thesis by (simp add: cosine_def)
qed

lemma cosine_zero_left [simp]: "cosine (replicate n 0) v = None"
  by (simp add: cosine_def)

lemma np_dot_map_upt: "np_dot (map f [0..<n]) (map g [0..<n]) = (\<Sum>i<n. f i * g i)"
proof (induction n)
  case 0
  show ?case by simp
next
  case (Suc n)
  have "np_dot (map f [0..<Suc n]) (map g [0..<Suc n])
        = sum_list (map (\<lambda>i. f i * g i) [0..<Suc n])"
    by (simp add: np_dot_def zip_map_map o_def zip_same_conv_map del: upt_Suc)
  also have "\<dots> = (\<Sum>i<Suc n. f i * g i)"
    by (simp add: sum_list_sum_nth atLeast0LessThan del: upt_Suc) 
  finally show ?case .
qed

section \<open>The logging calls of the store\<close>

lemma load_global_logger: "load_global ''logger'' = Inl (NameError ''logger'')"
  by (simp add: load_global_def memory_store_globals_def)

lemma scan_rejected_cases:
  "scan_rejected rt st cur thr rows acc =
     (if \<exists>r\<in>set rows. float_ge (rejected_similarity rt st cur r) thr
      then Inl (NameError ''logger'') else Inr acc)"
  by (induction rows arbitrary: acc) (simp_all add: load_global_logger)

lemma get_rejected_labels_cases:
  "get_rejected_labels_for_similar_emails rt st sb sn sp thr =
     (if \<exists>r\<in>set (rejected_labels st).
           float_ge (rejected_similarity rt st (embed rt st (joined_text sb sn sp)) r) thr
      then Inl (NameError ''logger'') else Inr {})"
  by (simp add: get_rejected_labels_for_similar_emails_def Let_def scan_rejected_cases)

lemma np_norm_basis: "k < n \<Longrightarrow> np_norm (map (basis k) [0..<n]) = 1"
  by (simp add: np_norm_def np_dot_map_upt basis_def if_distrib [of "\<lambda>x. x * _"] cong: if_cong)

lemma np_dot_basis:
  "j < n \<Longrightarrow> k < n \<Longrightarrow> np_dot (map (basis j) [0..<n]) (map (basis k) [0..<n]) = (if j = k then 1 else 0)"
  by (simp add: np_dot_map_upt basis_def if_distrib [of "\<lambda>x. x * _"] cong: if_cong)

text \<open>
  Claim C3. \<^verbatim>\<open>mark_email_processed\<close> and \<^verbatim>\<open>store_rejected_label\<close> raise
  \<^verbatim>\<open>NameError\<close> for the unbound name \<^verbatim>\<open>logger\<close>, after the commit: the store that comes
  with the error holds the written row. \<^verbatim>\<open>get_rejected_labels_for_similar_emails\<close> raises
  the same error whenever some stored rejection has a cosine similarity to the query that
  reaches the threshold.
\<close>

theorem logging_raises_NameError:
  "snd (mark_email_processed st mid label acc) = Inl (NameError ''logger'')
   \<and> labeled_emails (fst (mark_email_processed st mid label acc)) =
       sql_insert_or_replace
         \<lparr>message_id = mid, subject = None, sender = None, snippet = None,
          applied_label = label, accepted = acc\<rparr> (labeled_emails st)
   \<and> snd (store_rejected_label st mid sb sn sp label) = Inl (NameError ''logger'')
   \<and> rejected_labels (fst (store_rejected_label st mid sb sn sp label)) =
       rejected_labels st @
         [\<lparr>rej_message_id = mid, rej_subject = sb, rej_sender = sn, rej_snippet = sp,
           rejected_label = label\<rparr>]
   \<and> ((\<exists>r\<in>set (rejected_labels st).
          float_ge (cosine (embed rt st (joined_text qs qn qp))
                      (embed rt st (joined_text (rej_subject r) (rej_sender r) (rej_snippet r))))
            thr)
        \<longrightarrow> get_rejected_labels_for_similar_emails rt st qs qn qp thr = Inl (NameError ''logger''))"
  by (simp add: mark_email_processed_def store_rejected_label_def Let_def load_global_logger
      get_rejected_labels_cases rejected_similarity_def)

lemma joined_text_single [simp]: "s \<noteq> [] \<Longrightarrow> joined_text (Some s) None None = s"
  by (simp add: joined_text_def truthy_strings_def)

lemma embed_example:
  "text \<noteq> [] \<Longrightarrow> dim st = 384 \<Longrightarrow> model st = Some example_encoder \<Longrightarrow>
   embed rt st text = unit_normalize (map (basis (length text mod 2)) [0..<384])"
  by (simp add: embed_def model_encode_def example_encoder_def)

lemma np_norm_unit_normalize_basis:
  "k < n \<Longrightarrow> np_norm (unit_normalize (map (basis k) [0..<n])) = 1 / (1 + eps)"
  by (simp add: np_norm_unit_normalize np_norm_basis)

lemma rejected_store_simps:
  "dim rejected_store = 384" "model rejected_store = Some example_encoder"
  "rejected_labels rejected_store =
     [\<lparr>rej_message_id = ''m1'', rej_subject = Some ''Invoice 42'', rej_sender = None,
       rej_snippet = None, rejected_label = ''Work''\<rparr>]"
  "labeled_emails rejected_store = []"
  by (simp_all add: rejected_store_def store_rejected_label_def init_store_def Let_def)

lemma rejected_store_similar:
  "float_ge (cosine (embed rt rejected_store (joined_text (Some ''Invoice 42'') None None))
               (embed rt rejected_store (joined_text (Some ''Invoice 42'') None None))) (7 / 10)"
proof -
  have nz: "np_norm (unit_normalize (map (basis 0) [0..<384])) \<noteq> 0"
    using eps_pos by (simp add: np_norm_unit_normalize_basis)
  show ?thesis
    by (simp add: embed_example rejected_store_simps cosine_self [OF nz] float_ge_def)
qed

theorem logging_raises_NameError_witness:
  "snd (mark_email_processed rejected_store ''m1'' ''Work'' False) = Inl (NameError ''logger'')
   \<and> labeled_emails (fst (mark_email_processed rejected_store ''m1'' ''Work'' False)) =
       [\<lparr>message_id = ''m1'', subject = None, sender = None, snippet = None,
         applied_label = ''Work'', accepted = False\<rparr>]
   \<and> snd (store_rejected_label rejected_store ''m2'' (Some ''Hi'') None None ''Other'')
       = Inl (NameError ''logger'')
   \<and> length (rejected_labels
         (fst (store_rejected_label rejected_store ''m2'' (Some ''Hi'') None None ''Other''))) = 2
   \<and> get_rejected_labels_for_similar_emails example_runtime rejected_store
         (Some ''Invoice 42'') None None (7 / 10) = Inl (NameError ''logger'')"
  using logging_raises_NameError [of rejected_store "''m1''" "''Work''" False, where
      rt = example_runtime and qs = "Some ''Invoice 42''" and qn = None and qp = None
      and thr = "7 / 10"]
    logging_raises_NameError [of rejected_store "''m2''" "''Other''" False "Some ''Hi''" None None]
    rejected_store_similar [of example_runtime]
  by (simp add: rejected_store_simps sql_insert_or_replace_def)

section \<open>Feedback ingestion\<close>

lemma store_apply_gmail_label [simp]: "store (apply_gmail_label gmail s mid l) = store s"
  by (simp add: apply_gmail_label_def split: option.splits sum.splits prod.splits)

lemma embed_cong_store:
  "dim st' = dim st \<Longrightarrow> model st' = model st \<Longrightarrow> embed rt st' text = embed rt st text"
  by (simp add: embed_def model_encode_def fallback_embed_def split: option.splits)

lemma row_embedding_cong_store:
  "dim st' = dim st \<Longrightarrow> model st' = model st \<Longrightarrow> row_embedding rt st' r = row_embedding rt st r"
  using embed_cong_store [of st' st rt] by (simp add: row_embedding_def)

lemma labeled_emails_rebuild_index [simp]:
  "labeled_emails (rebuild_index rt st) = labeled_emails st"
  by (simp add: rebuild_index_def save_index_def Let_def)

lemma rejected_labels_rebuild_index [simp]:
  "rejected_labels (rebuild_index rt st) = rejected_labels st"
  by (simp add: rebuild_index_def save_index_def Let_def)

lemma dim_model_rebuild_index [simp]:
  "dim (rebuild_index rt st) = dim st" "model (rebuild_index rt st) = model st"
  by (simp_all add: rebuild_index_def save_index_def Let_def)

lemma filter_sql_upsert:
  "filter (\<lambda>r. message_id r \<noteq> message_id e) (sql_upsert e rows) =
   filter (\<lambda>r. message_id r \<noteq> message_id e) rows"
  by (induction rows) simp_all

lemma insert_or_replace_after_upsert:
  "message_id e' = message_id e \<Longrightarrow>
   sql_insert_or_replace e' (sql_upsert e rows) =
     filter (\<lambda>r. message_id r \<noteq> message_id e) rows @ [e']"
  using filter_sql_upsert [of e rows] by (simp add: sql_insert_or_replace_def)

lemma labeled_emails_upsert [simp]:
  "labeled_emails (upsert_labeled_email rt st e) = sql_upsert e (labeled_emails st)"
  by (simp add: upsert_labeled_email_def)

lemma labeled_emails_mark [simp]:
  "labeled_emails (fst (mark_email_processed st mid l a)) =
     sql_insert_or_replace
       \<lparr>message_id = mid, subject = None, sender = None, snippet = None, applied_label = l,
        accepted = a\<rparr> (labeled_emails st)"
  by (simp add: mark_email_processed_def Let_def)

text \<open>
  Claim C10. \<^verbatim>\<open>mark_email_processed\<close> replaces the whole row of the message by one whose
  subject, sender and snippet are null. Called after \<^verbatim>\<open>upsert_labeled_email\<close> for the same
  message, as the handling of an approved decision does, it leaves a row that keeps only
  the message id, the applied label and the accepted flag of the example.
\<close>

theorem mark_processed_drops_text:
  "labeled_emails (fst (mark_email_processed (upsert_labeled_email rt st e) (message_id e)
                          (applied_label e) (accepted e))) =
     filter (\<lambda>r. message_id r \<noteq> message_id e) (labeled_emails st) @
       [e\<lparr>subject := None, sender := None, snippet := None\<rparr>]
   \<and> (approved_of approvals sg \<and> final_label_of approvals sg = Some l \<and> l \<noteq> [] \<longrightarrow>
        labeled_emails (store (apply_suggestion rt gmail approvals s sg)) =
          filter (\<lambda>r. message_id r \<noteq> msg_id (sugg_message sg)) (labeled_emails (store s)) @
            [\<lparr>message_id = msg_id (sugg_message sg), subject = None, sender = None,
              snippet = None, applied_label = l, accepted = True\<rparr>])"
proof (intro conjI impI)
  have "\<lparr>message_id = message_id e, subject = None, sender = None, snippet = None,
         applied_label = applied_label e, accepted = accepted e\<rparr>
        = e\<lparr>subject := None, sender := None, snippet := None\<rparr>"
    by simp
  then show "labeled_emails (fst (mark_email_processed (upsert_labeled_email rt st e) (message_id e)
                          (applied_label e) (accepted e))) =
     filter (\<lambda>r. message_id r \<noteq> message_id e) (labeled_emails st) @
       [e\<lparr>subject := None, sender := None, snippet := None\<rparr>]"
    by (simp add: insert_or_replace_after_upsert)
next
  assume a: "approved_of approvals sg \<and> final_label_of approvals sg = Some l \<and> l \<noteq> []"
  let ?mid = "msg_id (sugg_message sg)"
  let ?msg = "full_message gmail (sugg_message sg)"
  let ?e = "\<lparr>message_id = ?mid, subject = msg_get ?msg ''subject'',
              sender = msg_get ?msg ''from'', snippet = msg_get ?msg ''snippet'',
              applied_label = l, accepted = True\<rparr>"
  let ?e' = "\<lparr>message_id = ?mid, subject = None, sender = None, snippet = None,
              applied_label = l, accepted = True\<rparr>"
  have "labeled_emails (store (apply_suggestion rt gmail approvals s sg)) =
        sql_insert_or_replace ?e' (sql_upsert ?e (labeled_emails (store s)))"
    using a by (simp add: apply_suggestion_def Let_def)
  also have "\<dots> = filter (\<lambda>r. message_id r \<noteq> ?mid) (labeled_emails (store s)) @ [?e']"
    using insert_or_replace_after_upsert [of ?e' ?e "labeled_emails (store s)"] by simp
  finally show "labeled_emails (store (apply_suggestion rt gmail approvals s sg)) =
          filter (\<lambda>r. message_id r \<noteq> ?mid) (labeled_emails (store s)) @ [?e']" .
qed

lemma example_decisions:
  "approved_of approve_m1 example_suggestion"
  "final_label_of approve_m1 example_suggestion = Some ''Work''"
  "\<not> approved_of reject_m1 example_suggestion"
  "final_label_of reject_m1 example_suggestion = Some ''Work''"
  "msg_id (sugg_message example_suggestion) = ''m1''"
  by (simp_all add: approved_of_def final_label_of_def approve_m1_def reject_m1_def
      example_suggestion_def example_message_def py_or_def truthy_def)

lemma start_state_store: "labeled_emails (store start_state) = []"
  "rejected_labels (store start_state) = []"
  by (simp_all add: start_state_def init_store_def)

theorem mark_processed_drops_text_witness:
  "labeled_emails (store (apply_suggestion example_runtime example_gmail approve_m1 start_state
                            example_suggestion)) =
     [\<lparr>message_id = ''m1'', subject = None, sender = None, snippet = None,
       applied_label = ''Work'', accepted = True\<rparr>]
   \<and> msg_get (sugg_message example_suggestion) ''subject'' = Some ''Invoice 42''"
proof -
  have hyps: "approved_of approve_m1 example_suggestion
      \<and> final_label_of approve_m1 example_suggestion = Some ''Work'' \<and> ''Work'' \<noteq> []"
    by (simp add: example_decisions)
  have "labeled_emails (store (apply_suggestion example_runtime example_gmail approve_m1
                                 start_state example_suggestion)) =
          filter (\<lambda>r. message_id r \<noteq> msg_id (sugg_message example_suggestion))
            (labeled_emails (store start_state)) @
            [\<lparr>message_id = msg_id (sugg_message example_suggestion), subject = None,
              sender = None, snippet = None, applied_label = ''Work'', accepted = True\<rparr>]"
    by (rule mark_processed_drops_text [of example_runtime "store start_state"
        "\<lparr>message_id = ''m1'', subject = None, sender = None, snippet = None,
          applied_label = ''Work'', accepted = True\<rparr>" approve_m1
        example_suggestion "''Work''" example_gmail start_state, THEN conjunct2, THEN mp, OF hyps])
  then have first: "labeled_emails (store (apply_suggestion example_runtime example_gmail approve_m1
                                 start_state example_suggestion)) =
     [\<lparr>message_id = ''m1'', subject = None, sender = None, snippet = None,
       applied_label = ''Work'', accepted = True\<rparr>]"
    by (simp only: example_decisions start_state_store filter.simps append_Nil)
  have second: "msg_get (sugg_message example_suggestion) ''subject'' = Some ''Invoice 42''"
    by (simp add: example_suggestion_def example_message_def msg_get_def)
  from first second show ?thesis by (rule conjI)
qed

lemma store_rejected_label_frame:
  "labeled_emails (fst (store_rejected_label st mid sb sn sp l)) = labeled_emails st"
  "index (fst (store_rejected_label st mid sb sn sp l)) = index st"
  "ids (fst (store_rejected_label st mid sb sn sp l)) = ids st"
  "index_file (fst (store_rejected_label st mid sb sn sp l)) = index_file st"
  "rejected_labels (fst (store_rejected_label st mid sb sn sp l)) =
     rejected_labels st @
       [\<lparr>rej_message_id = mid, rej_subject = sb, rej_sender = sn, rej_snippet = sp,
         rejected_label = l\<rparr>]"
  by (simp_all add: store_rejected_label_def Let_def)

lemma mark_email_processed_frame:
  "rejected_labels (fst (mark_email_processed st mid l a)) = rejected_labels st"
  "index (fst (mark_email_processed st mid l a)) = index st"
  "ids (fst (mark_email_processed st mid l a)) = ids st"
  "index_file (fst (mark_email_processed st mid l a)) = index_file st"
  by (simp_all add: mark_email_processed_def Let_def)

lemma apply_suggestion_rejected:
  assumes "\<not> approved_of approvals sg" and "final_label_of approvals sg = Some l" and "l \<noteq> []"
  shows "store (apply_suggestion rt gmail approvals s sg) =
           fst (mark_email_processed
                  (fst (store_rejected_label (store s) (msg_id (sugg_message sg))
                          (msg_get_default (full_message gmail (sugg_message sg)) ''subject'' [])
                          (msg_get_default (full_message gmail (sugg_message sg)) ''from'' [])
                          (msg_get_default (full_message gmail (sugg_message sg)) ''snippet'' [])
                          l))
                  (msg_id (sugg_message sg)) l False)"
  using assms by (simp add: apply_suggestion_def Let_def)

text \<open>
  Claim C2, as amended. Handling a rejected decision whose final label is not empty
  appends exactly one row to \<^verbatim>\<open>rejected_labels\<close> and performs no upsert: the index, its ids
  and its file stay as they were. \<^verbatim>\<open>store_rejected_label\<close> leaves the labelled examples
  unchanged. The call of \<^verbatim>\<open>mark_email_processed\<close> that follows replaces the example of the
  message by the row with null subject, sender and snippet, the final label and
  \<^verbatim>\<open>accepted\<close> false, and creates that row when the message had none.
\<close>

theorem rejected_decision_effects:
  "labeled_emails (fst (store_rejected_label st mid sb sn sp l)) = labeled_emails st
   \<and> (\<not> approved_of approvals sg \<and> final_label_of approvals sg = Some l \<and> l \<noteq> [] \<longrightarrow>
        rejected_labels (store (apply_suggestion rt gmail approvals s sg)) =
          rejected_labels (store s) @
            [\<lparr>rej_message_id = msg_id (sugg_message sg),
              rej_subject = msg_get_default (full_message gmail (sugg_message sg)) ''subject'' [],
              rej_sender = msg_get_default (full_message gmail (sugg_message sg)) ''from'' [],
              rej_snippet = msg_get_default (full_message gmail (sugg_message sg)) ''snippet'' [],
              rejected_label = l\<rparr>]
        \<and> labeled_emails (store (apply_suggestion rt gmail approvals s sg)) =
            filter (\<lambda>r. message_id r \<noteq> msg_id (sugg_message sg)) (labeled_emails (store s)) @
              [\<lparr>message_id = msg_id (sugg_message sg), subject = None, sender = None,
                snippet = None, applied_label = l, accepted = False\<rparr>]
        \<and> index (store (apply_suggestion rt gmail approvals s sg)) = index (store s)
        \<and> ids (store (apply_suggestion rt gmail approvals s sg)) = ids (store s)
        \<and> index_file (store (apply_suggestion rt gmail approvals s sg)) = index_file (store s))"
proof (intro conjI impI)
  show "labeled_emails (fst (store_rejected_label st mid sb sn sp l)) = labeled_emails st"
    by (rule store_rejected_label_frame)
next
  assume a: "\<not> approved_of approvals sg \<and> final_label_of approvals sg = Some l \<and> l \<noteq> []"
  note eq = apply_suggestion_rejected [of approvals sg l rt gmail s]
  show "rejected_labels (store (apply_suggestion rt gmail approvals s sg)) =
          rejected_labels (store s) @
            [\<lparr>rej_message_id = msg_id (sugg_message sg),
              rej_subject = msg_get_default (full_message gmail (sugg_message sg)) ''subject'' [],
              rej_sender = msg_get_default (full_message gmail (sugg_message sg)) ''from'' [],
              rej_snippet = msg_get_default (full_message gmail (sugg_message sg)) ''snippet'' [],
              rejected_label = l\<rparr>]"
    using a by (simp add: eq mark_email_processed_frame store_rejected_label_frame)
  show "labeled_emails (store (apply_suggestion rt gmail approvals s sg)) =
            filter (\<lambda>r. message_id r \<noteq> msg_id (sugg_message sg)) (labeled_emails (store s)) @
              [\<lparr>message_id = msg_id (sugg_message sg), subject = None, sender = None,
                snippet = None, applied_label = l, accepted = False\<rparr>]"
    using a by (simp add: eq store_rejected_label_frame sql_insert_or_replace_def)
  show "index (store (apply_suggestion rt gmail approvals s sg)) = index (store s)"
    using a by (simp add: eq mark_email_processed_frame store_rejected_label_frame)
  show "ids (store (apply_suggestion rt gmail approvals s sg)) = ids (store s)"
    using a by (simp add: eq mark_email_processed_frame store_rejected_label_frame)
  show "index_file (store (apply_suggestion rt gmail approvals s sg)) = index_file (store s)"
    using a by (simp add: eq mark_email_processed_frame store_rejected_label_frame)
qed

lemma example_full_message: "full_message example_gmail example_message = example_message"
  by (simp add: full_message_def msg_len_keys_def example_message_def)

theorem rejected_decision_effects_witness:
  "rejected_labels (store (apply_suggestion example_runtime example_gmail reject_m1 start_state
                             example_suggestion)) =
     [\<lparr>rej_message_id = ''m1'', rej_subject = Some ''Invoice 42'',
       rej_sender = Some ''billing@example.com'',
       rej_snippet = Some ''Your invoice is attached'', rejected_label = ''Work''\<rparr>]
   \<and> index (store (apply_suggestion example_runtime example_gmail reject_m1 start_state
                      example_suggestion)) = []"
proof -
  have hyps: "\<not> approved_of reject_m1 example_suggestion
      \<and> final_label_of reject_m1 example_suggestion = Some ''Work'' \<and> ''Work'' \<noteq> []"
    by (simp add: example_decisions)
  note th = rejected_decision_effects [of "store start_state" "''m1''" None None None "''Work''"
      reject_m1 example_suggestion example_runtime example_gmail start_state,
      THEN conjunct2, THEN mp, OF hyps]
  have msg: "sugg_message example_suggestion = example_message"
    by (simp add: example_suggestion_def)
  have fields:
    "msg_get_default example_message ''subject'' [] = Some ''Invoice 42''"
    "msg_get_default example_message ''from'' [] = Some ''billing@example.com''"
    "msg_get_default example_message ''snippet'' [] = Some ''Your invoice is attached''"
    "msg_id example_message = ''m1''"
    by (simp_all add: msg_get_default_def example_message_def)
  have idx: "index (store start_state) = []"
    by (simp add: start_state_def init_store_def)
  from th show ?thesis
    by (simp add: msg example_full_message fields start_state_store idx)
qed

text \<open>
  As stated, the claim asks that no labelled example is created for a rejected decision.
  On a fresh store the rejected decision for message \<^verbatim>\<open>m1\<close> leaves one.
\<close>

theorem rejected_decision_counterexample:
  "labeled_emails (store start_state) = []
   \<and> labeled_emails (store (apply_suggestion example_runtime example_gmail reject_m1 start_state
                               example_suggestion)) =
       [\<lparr>message_id = ''m1'', subject = None, sender = None, snippet = None,
         applied_label = ''Work'', accepted = False\<rparr>]"
proof -
  have "store (apply_suggestion example_runtime example_gmail reject_m1 start_state
                 example_suggestion) =
        fst (mark_email_processed
               (fst (store_rejected_label (store start_state) (msg_id (sugg_message example_suggestion))
                  (msg_get_default (full_message example_gmail (sugg_message example_suggestion)) ''subject'' [])
                  (msg_get_default (full_message example_gmail (sugg_message example_suggestion)) ''from'' [])
                  (msg_get_default (full_message example_gmail (sugg_message example_suggestion)) ''snippet'' [])
                  ''Work''))
               (msg_id (sugg_message example_suggestion)) ''Work'' False)"
    by (rule apply_suggestion_rejected) (simp_all add: example_decisions)
  then show ?thesis
    by (simp add: store_rejected_label_frame start_state_store sql_insert_or_replace_def
        example_decisions)
qed

section \<open>Re-suggestion with rejected labels\<close>

lemma get_label_centroids_empty: "labeled_emails st = [] \<Longrightarrow> get_label_centroids rt st = []"
  by (simp add: get_label_centroids_def)

lemma centroid_scoring_plain_empty:
  "labeled_emails st = [] \<Longrightarrow> centroid_scoring_plain rt st msg labels thr = (None, [])"
  by (simp add: centroid_scoring_plain_def get_label_centroids_empty)

lemma get_label_for_message_empty:
  "labeled_emails st = [] \<Longrightarrow> get_label_for_message st mid = None"
  by (simp add: get_label_for_message_def)

lemma with_rejected_llm_path:
  assumes "labeled_emails st = []"
  shows "classify_single_email_with_rejected rt st llm msg label_names ibn rejected thr =
     (case llm \<lparr>req_msg = msg, req_labels = label_names,
                 req_rejected = rejected, force_different = False\<rparr> of
        Inl e \<Rightarrow> None
      | Inr first_label \<Rightarrow>
          (case (if first_label \<in> set rejected then
                   llm \<lparr>req_msg = msg, req_labels = label_names,
                        req_rejected = rejected, force_different = True\<rparr>
                 else Inr first_label) of
             Inl e \<Rightarrow> None
           | Inr lbl \<Rightarrow>
               if lbl \<noteq> [] then
                 Some \<lparr>sugg_message = msg, suggested_label = Some lbl, label_id = ibn lbl,
                       sugg_source = Llm, sugg_scores = []\<rparr>
               else None))"
  using assms
  by (simp add: classify_single_email_with_rejected_def centroid_scoring_plain_empty
      get_label_for_message_empty truthy_def)

text \<open>
  Claim C8. The claim asks that a label of the supplied rejected set is never returned.
  The code checks the first reply of the generative tier against the set and retries
  once, but returns the second reply unchecked: with a fresh store, the rejected set
  \<^verbatim>\<open>["Work"]\<close> and a generative tier that answers \<^verbatim>\<open>Work\<close> both times, the suggestion is
  \<^verbatim>\<open>Work\<close>.
\<close>

theorem retry_returns_rejected_label:
  "classify_single_email_with_rejected example_runtime (init_store (Some example_encoder))
     stubborn_llm example_message [''Work''] [''Work'' \<mapsto> ''Label_1''] [''Work''] (35 / 100) =
   Some \<lparr>sugg_message = example_message, suggested_label = Some ''Work'',
         label_id = Some ''Label_1'', sugg_source = Llm, sugg_scores = []\<rparr>"
proof -
  have "labeled_emails (init_store (Some example_encoder)) = []"
    by (simp add: init_store_def)
  then show ?thesis
    by (simp add: with_rejected_llm_path stubborn_llm_def)
qed

section \<open>Idempotence of the upsert\<close>

lemma sql_upsert_idem: "sql_upsert e (sql_upsert e rows) = sql_upsert e rows"
  by (induction rows) simp_all

lemma set_ids_sql_upsert:
  "set (map message_id (sql_upsert e rows)) = insert (message_id e) (set (map message_id rows))"
  by (induction rows) auto

lemma distinct_sql_upsert:
  "distinct (map message_id rows) \<Longrightarrow> distinct (map message_id (sql_upsert e rows))"
proof (induction rows)
  case Nil
  show ?case by simp
next
  case (Cons r rows)
  show ?case
  proof (cases "message_id r = message_id e")
    case True
    with Cons.prems show ?thesis by simp
  next
    case False
    have "message_id r \<notin> set (map message_id (sql_upsert e rows))"
      using Cons.prems False by (simp add: set_ids_sql_upsert del: set_map)
    with Cons False show ?thesis by simp
  qed
qed

lemma rebuild_index_eq:
  "rebuild_index rt st =
     (if filter accepted (labeled_emails st) = []
      then st\<lparr>index := [], index_file := Some []\<rparr>
      else st\<lparr>ids := Some (map message_id (filter accepted (labeled_emails st))),
              index := map (row_embedding rt st) (filter accepted (labeled_emails st)),
              index_file := Some (map (row_embedding rt st) (filter accepted (labeled_emails st)))\<rparr>)"
  by (simp add: rebuild_index_def save_index_def Let_def)

lemma rebuild_index_idem: "rebuild_index rt (rebuild_index rt st) = rebuild_index rt st"
proof (cases "filter accepted (labeled_emails st) = []")
  case True
  have one: "rebuild_index rt st = st\<lparr>index := [], index_file := Some []\<rparr>"
    using True by (simp add: rebuild_index_eq)
  have "rebuild_index rt (st\<lparr>index := [], index_file := Some []\<rparr>) =
        st\<lparr>index := [], index_file := Some []\<rparr>"
    using True by (simp add: rebuild_index_eq)
  with one show ?thesis by simp
next
  case False
  let ?rows = "filter accepted (labeled_emails st)"
  let ?st1 = "st\<lparr>ids := Some (map message_id ?rows), index := map (row_embedding rt st) ?rows,
                 index_file := Some (map (row_embedding rt st) ?rows)\<rparr>"
  have one: "rebuild_index rt st = ?st1"
    using False by (simp add: rebuild_index_eq)
  have emb: "row_embedding rt ?st1 = row_embedding rt st"
    by (rule ext) (rule row_embedding_cong_store, simp_all)
  have "rebuild_index rt ?st1 = ?st1"
    using False by (simp add: rebuild_index_eq [of rt ?st1] emb)
  with one show ?thesis by simp
qed

lemma upsert_labeled_email_idem:
  "upsert_labeled_email rt (upsert_labeled_email rt st e) e = upsert_labeled_email rt st e"
proof -
  let ?st1 = "st\<lparr>labeled_emails := sql_upsert e (labeled_emails st)\<rparr>"
  have "(rebuild_index rt ?st1)\<lparr>labeled_emails :=
           sql_upsert e (labeled_emails (rebuild_index rt ?st1))\<rparr> = rebuild_index rt ?st1"
    by (simp add: sql_upsert_idem rebuild_index_eq)
  then show ?thesis
    by (simp add: upsert_labeled_email_def rebuild_index_idem)
qed

text \<open>
  Claim C9. A second \<^verbatim>\<open>upsert_labeled_email\<close> with the same data leaves the whole store
  as the first one left it: the rows, with no message id twice, the index, and with them
  the centroids and the answer of every \<^verbatim>\<open>similar\<close> query.
\<close>

theorem upsert_twice_idempotent:
  "upsert_labeled_email rt (upsert_labeled_email rt st e) e = upsert_labeled_email rt st e
   \<and> labeled_emails (upsert_labeled_email rt (upsert_labeled_email rt st e) e) =
       labeled_emails (upsert_labeled_email rt st e)
   \<and> (distinct (map message_id (labeled_emails st)) \<longrightarrow>
        distinct (map message_id
          (labeled_emails (upsert_labeled_email rt (upsert_labeled_email rt st e) e))))
   \<and> get_label_centroids rt (upsert_labeled_email rt (upsert_labeled_email rt st e) e) =
       get_label_centroids rt (upsert_labeled_email rt st e)
   \<and> index (upsert_labeled_email rt (upsert_labeled_email rt st e) e) =
       index (upsert_labeled_email rt st e)
   \<and> similar rt (upsert_labeled_email rt (upsert_labeled_email rt st e) e) sb sn sp k =
       similar rt (upsert_labeled_email rt st e) sb sn sp k"
proof -
  have "distinct (map message_id (labeled_emails st)) \<longrightarrow>
        distinct (map message_id (labeled_emails (upsert_labeled_email rt st e)))"
    by (simp add: distinct_sql_upsert del: distinct_map)
  then show ?thesis
    by (simp only: upsert_labeled_email_idem simp_thms)
qed

theorem upsert_twice_idempotent_witness:
  "distinct (map message_id (labeled_emails (store start_state)))
   \<and> labeled_emails (upsert_labeled_email example_runtime
         (upsert_labeled_email example_runtime (store start_state) example_row) example_row) =
       [example_row]
   \<and> distinct (map message_id (labeled_emails (upsert_labeled_email example_runtime
         (upsert_labeled_email example_runtime (store start_state) example_row) example_row)))"
proof -
  have d: "distinct (map message_id (labeled_emails (store start_state)))"
    by (simp add: start_state_store)
  note th = upsert_twice_idempotent [of example_runtime "store start_state" example_row]
  have two: "labeled_emails (upsert_labeled_email example_runtime
         (upsert_labeled_email example_runtime (store start_state) example_row) example_row) =
       labeled_emails (upsert_labeled_email example_runtime (store start_state) example_row)"
    using th by (rule conjunct2 [THEN conjunct1])
  have three: "distinct (map message_id (labeled_emails (upsert_labeled_email example_runtime
         (upsert_labeled_email example_runtime (store start_state) example_row) example_row)))"
    using th [THEN conjunct2, THEN conjunct2, THEN conjunct1] d by (rule mp)
  have one: "labeled_emails (upsert_labeled_email example_runtime (store start_state) example_row)
       = [example_row]"
    by (simp add: start_state_store)
  from d two three one show ?thesis by simp
qed

section \<open>Centroids and scores\<close>

lemma py_max_by_mem: "py_max_by key best xs \<in> set (best # xs)"
  by (induction xs arbitrary: best) auto

lemma py_max_by_ge: "y \<in> set (best # xs) \<Longrightarrow> key y \<le> key (py_max_by key best xs)"
proof (induction xs arbitrary: best y)
  case Nil
  then show ?case by simp
next
  case (Cons x xs)
  have mono: "key b \<le> key (py_max_by key b xs)" for b
    using Cons.IH [of b b] by simp
  show ?case
  proof (cases "y \<in> set xs")
    case True
    then show ?thesis using Cons.IH [of y "if key best < key x then x else best"] by simp
  next
    case False
    with Cons.prems have "y = best \<or> y = x" by auto
    then show ?thesis
      using mono [of "if key best < key x then x else best"]
      by (auto split: if_splits)
  qed
qed

lemma py_max_by_all_equal:
  "\<forall>y\<in>set xs. key y = key best \<Longrightarrow> py_max_by key best xs = best"
  by (induction xs arbitrary: best) auto

lemma map_of_accum_append:
  "map_of (accum_append accum l x) =
     (map_of accum)(l \<mapsto> (case map_of accum l of None \<Rightarrow> [] | Some xs \<Rightarrow> xs) @ [x])"
  by (simp add: accum_append_def update_conv')

lemma accumulate_snoc:
  "accumulate rt st (rows @ [r]) =
     accum_append (accumulate rt st rows) (applied_label r)
       (row_embedding rt st r, if accepted r then 5 else 1)"
  by (simp add: accumulate_def)

lemma map_of_accumulate:
  "map_of (accumulate rt st rows) l =
     (if l \<in> applied_label ` set rows then Some (label_examples rt st l rows) else None)"
proof (induction rows arbitrary: l rule: rev_induct)
  case Nil
  show ?case by (simp add: accumulate_def)
next
  case (snoc r rows)
  show ?case
  proof (cases "l = applied_label r")
    case True
    have "label_examples rt st l (rows @ [r]) =
          label_examples rt st l rows @ [(row_embedding rt st r, if accepted r then 5 else 1)]"
      using True by (simp add: label_examples_def)
    moreover have "(case map_of (accumulate rt st rows) l of None \<Rightarrow> [] | Some xs \<Rightarrow> xs) =
          label_examples rt st l rows"
      by (auto simp: snoc.IH label_examples_def filter_empty_conv image_iff)
    ultimately show ?thesis
      using True by (simp add: accumulate_snoc map_of_accum_append)
  next
    case False
    then show ?thesis
      by (simp add: accumulate_snoc map_of_accum_append snoc.IH label_examples_def)
  qed
qed

lemma label_examples_nonempty:
  "l \<in> applied_label ` set rows \<Longrightarrow> label_examples rt st l rows \<noteq> []"
  by (auto simp: label_examples_def filter_empty_conv)

lemma accumulate_values_nonempty:
  "(l, vws) \<in> set (accumulate rt st rows) \<Longrightarrow> vws \<noteq> []"
proof (induction rows arbitrary: l vws rule: rev_induct)
  case Nil
  then show ?case by (simp add: accumulate_def)
next
  case (snoc r rows)
  have upd: "(k, v) \<in> set (AList.update k' v' al) \<Longrightarrow> (k, v) = (k', v') \<or> (k, v) \<in> set al"
    for k v k' v' and al :: "(string \<times> (vec \<times> real) list) list"
    by (induction al) (auto split: if_splits)
  from snoc.prems show ?case
    using snoc.IH upd by (fastforce simp: accumulate_snoc accum_append_def)
qed

lemma map_of_get_label_centroids:
  "map_of (get_label_centroids rt st) l =
     (if l \<in> applied_label ` set (labeled_emails st)
      then Some (centroid_of (label_examples rt st l (labeled_emails st))) else None)"
proof -
  let ?acc = "accumulate rt st (labeled_emails st)"
  have flt: "filter (\<lambda>(label, vec_weights). vec_weights \<noteq> []) ?acc = ?acc"
    by (rule filter_True) (auto dest: accumulate_values_nonempty)
  have "map_of (map (\<lambda>(label, vec_weights). (label, centroid_of vec_weights)) ?acc) l =
        map_option centroid_of (map_of ?acc l)"
    by (simp add: map_of_map)
  then show ?thesis
    by (cases "labeled_emails st = []")
       (simp_all add: get_label_centroids_def Let_def flt map_of_accumulate)
qed

lemma get_label_centroids_nonempty:
  "labeled_emails st \<noteq> [] \<Longrightarrow> get_label_centroids rt st \<noteq> []"
proof
  assume ne: "labeled_emails st \<noteq> []" and emp: "get_label_centroids rt st = []"
  from ne obtain r where r: "r \<in> set (labeled_emails st)" by (cases "labeled_emails st") auto
  then have "map_of (get_label_centroids rt st) (applied_label r) \<noteq> None"
    by (simp add: map_of_get_label_centroids)
  with emp show False by simp
qed

lemma score_labels_snoc:
  "score_labels centroids rejected q (labels @ [l]) =
     (if l \<in> rejected then score_labels centroids rejected q labels
      else (case map_of centroids l of
              None \<Rightarrow> score_labels centroids rejected q labels
            | Some c \<Rightarrow> AList.update l ((np_dot q c + 1) / 2)
                          (score_labels centroids rejected q labels)))"
  unfolding score_labels_def by simp

lemma map_of_score_labels:
  "map_of (score_labels centroids rejected q labels) l =
     (if l \<in> set labels \<and> l \<notin> rejected
      then map_option (\<lambda>c. (np_dot q c + 1) / 2) (map_of centroids l) else None)"
proof (induction labels arbitrary: l rule: rev_induct)
  case Nil
  show ?case by (simp add: score_labels_def)
next
  case (snoc x labels)
  show ?case
    by (auto simp: score_labels_snoc snoc.IH update_conv' split: option.splits)
qed

lemma distinct_score_labels: "distinct (map fst (score_labels centroids rejected q labels))"
proof (induction labels rule: rev_induct)
  case Nil
  show ?case by (simp add: score_labels_def)
next
  case (snoc x labels)
  then show ?case
    by (auto simp: score_labels_snoc distinct_update split: option.splits)
qed

lemma score_labels_entry:
  "(l, s) \<in> set (score_labels centroids rejected q labels) \<longleftrightarrow>
     l \<in> set labels \<and> l \<notin> rejected \<and>
     (\<exists>c. map_of centroids l = Some c \<and> s = (np_dot q c + 1) / 2)"
proof -
  have "(l, s) \<in> set (score_labels centroids rejected q labels) \<longleftrightarrow>
        map_of (score_labels centroids rejected q labels) l = Some s"
    using distinct_score_labels [of centroids rejected q labels] by simp
  then show ?thesis by (auto simp: map_of_score_labels)
qed

lemma truthy_msg_get_default: "truthy (msg_get_default msg k []) = truthy (msg_get msg k)"
  by (simp add: msg_get_default_def msg_get_def truthy_def split: option.splits)

lemma joined_text_falsy:
  "\<not> truthy a \<Longrightarrow> \<not> truthy b \<Longrightarrow> \<not> truthy c \<Longrightarrow> joined_text a b c = []"
  by (auto simp: joined_text_def truthy_strings_def truthy_def split: option.splits)

lemma embed_empty [simp]: "embed rt st [] = replicate (dim st) 0"
  by (simp add: embed_def)

lemma textless_query:
  assumes "\<not> truthy (msg_get msg ''subject'')" "\<not> truthy (msg_get msg ''from'')"
    "\<not> truthy (msg_get msg ''snippet'')"
  shows "query_embedding rt st msg = replicate (dim st) 0"
    and "get_rejected_labels_for_similar_emails rt st (msg_get_default msg ''subject'' [])
           (msg_get_default msg ''from'' []) (msg_get_default msg ''snippet'' []) thr = Inr {}"
proof -
  show "query_embedding rt st msg = replicate (dim st) 0"
    using assms by (simp add: query_embedding_def joined_text_falsy)
  have "joined_text (msg_get_default msg ''subject'' []) (msg_get_default msg ''from'' [])
          (msg_get_default msg ''snippet'' []) = []"
    using assms by (intro joined_text_falsy) (simp_all add: truthy_msg_get_default)
  then show "get_rejected_labels_for_similar_emails rt st (msg_get_default msg ''subject'' [])
           (msg_get_default msg ''from'' []) (msg_get_default msg ''snippet'' []) thr = Inr {}"
    by (simp add: get_rejected_labels_cases rejected_similarity_def float_ge_def)
qed

lemma textless_scoring:
  assumes "\<not> truthy (msg_get msg ''subject'')" "\<not> truthy (msg_get msg ''from'')"
    "\<not> truthy (msg_get msg ''snippet'')"
    and "l0 \<in> set labels" "l0 \<in> applied_label ` set (labeled_emails st)"
  shows "\<exists>l sm. centroid_scoring rt st msg labels threshold =
                  Inr (if threshold \<le> 1 / 2 then Some l else None, sm)
           \<and> l \<in> set labels \<and> l \<in> applied_label ` set (labeled_emails st)
           \<and> sm \<noteq> [] \<and> (\<forall>p\<in>set sm. snd p = 1 / 2)"
proof -
  let ?cs = "get_label_centroids rt st"
  let ?sm = "score_labels ?cs {} (replicate (dim st) 0) labels"
  have rows: "labeled_emails st \<noteq> []" using assms(5) by auto
  have half: "snd p = 1 / 2" if "p \<in> set ?sm" for p
    using that score_labels_entry [of "fst p" "snd p" ?cs "{}" "replicate (dim st) 0" labels]
    by auto
  have keys: "fst p \<in> set labels \<and> fst p \<in> applied_label ` set (labeled_emails st)"
    if "p \<in> set ?sm" for p
    using that score_labels_entry [of "fst p" "snd p" ?cs "{}" "replicate (dim st) 0" labels]
    by (auto simp: map_of_get_label_centroids split: if_splits)
  have "(l0, 1 / 2) \<in> set ?sm"
    using assms(4,5) by (simp add: score_labels_entry map_of_get_label_centroids)
  then obtain x xs where sm: "?sm = x # xs" by (cases ?sm) auto
  let ?best = "py_max_by snd x xs"
  have best: "?best \<in> set ?sm" using py_max_by_mem [of snd x xs] sm by simp
  have "centroid_scoring rt st msg labels threshold =
        Inr (if threshold \<le> 1 / 2 then Some (fst ?best) else None, ?sm)"
    using rows sm half [OF best]
    by (simp add: centroid_scoring_def Let_def get_label_centroids_nonempty
        textless_query [OF assms(1-3)])
  moreover have "?sm \<noteq> []" using sm by simp
  ultimately show ?thesis using keys [OF best] half by blast
qed

section \<open>Messages without text\<close>

lemma after_centroid_source:
  "after_centroid rt st llm labels_api sm msg = Some sg \<Longrightarrow> sugg_source sg \<noteq> Centroid"
  by (auto simp: after_centroid_def Let_def split: if_splits option.splits prod.splits)

lemma classify_message_centroid_iff:
  assumes "centroid_scoring rt st msg (map lb_name labels_api)
             (case score_threshold of None \<Rightarrow> 40 / 100 | Some t \<Rightarrow> t) = Inr (best, sm)"
  shows "(\<exists>sg. classify_message rt st llm labels_api score_threshold msg = Inr (Some sg)
              \<and> sugg_source sg = Centroid) \<longleftrightarrow> truthy best"
  using assms by (auto simp: classify_message_def Let_def dest: after_centroid_source)

text \<open>
  Claim C7, as amended. For a message whose subject, sender and snippet are all empty or
  absent the query embedding is the zero vector, and the code reads no absence of signal
  from it: every candidate label gets the mapped score \<open>1/2\<close>, so with the default
  threshold \<open>0.40\<close> the centroid tier does resolve the message, whenever a known label
  (none of them empty) has a centroid. With a configured threshold it resolves the message
  exactly when the threshold is at most \<open>1/2\<close>.
\<close>

theorem textless_message_gets_centroid_label:
  assumes "\<not> truthy (msg_get msg ''subject'')" and "\<not> truthy (msg_get msg ''from'')"
    and "\<not> truthy (msg_get msg ''snippet'')"
    and "l0 \<in> lb_name ` set labels_api" and "l0 \<in> applied_label ` set (labeled_emails st)"
    and "[] \<notin> lb_name ` set labels_api"
  shows "query_embedding rt st msg = replicate (dim st) 0
     \<and> (\<exists>sg. classify_message rt st llm labels_api None msg = Inr (Some sg)
              \<and> sugg_source sg = Centroid \<and> sugg_scores sg \<noteq> []
              \<and> (\<forall>p\<in>set (sugg_scores sg). snd p = 1 / 2))
     \<and> ((\<exists>sg. classify_message rt st llm labels_api (Some t) msg = Inr (Some sg)
               \<and> sugg_source sg = Centroid) \<longleftrightarrow> t \<le> 1 / 2)"
proof (intro conjI)
  show "query_embedding rt st msg = replicate (dim st) 0"
    by (rule textless_query [OF assms(1-3)])
next
  have l0: "l0 \<in> set (map lb_name labels_api)" using assms(4) by simp
  obtain l sm where sc: "centroid_scoring rt st msg (map lb_name labels_api) (40 / 100) =
        Inr (if (40 / 100 :: real) \<le> 1 / 2 then Some l else None, sm)"
    and l: "l \<in> set (map lb_name labels_api)" and sm: "sm \<noteq> []" "\<forall>p\<in>set sm. snd p = 1 / 2"
    using textless_scoring [OF assms(1-3) l0 assms(5), of rt "40 / 100"] by blast
  have "l \<in> lb_name ` set labels_api" using l by simp
  then have "l \<noteq> []" using assms(6) by metis
  then have "classify_message rt st llm labels_api None msg =
        Inr (Some \<lparr>sugg_message = msg, suggested_label = Some l,
                    label_id = id_by_name_of labels_api l,
                    sugg_source = Centroid, sugg_scores = sm\<rparr>)"
    using sc by (simp add: classify_message_def truthy_def)
  then show "\<exists>sg. classify_message rt st llm labels_api None msg = Inr (Some sg)
              \<and> sugg_source sg = Centroid \<and> sugg_scores sg \<noteq> []
              \<and> (\<forall>p\<in>set (sugg_scores sg). snd p = 1 / 2)"
    using sm by simp
next
  have l0: "l0 \<in> set (map lb_name labels_api)" using assms(4) by simp
  obtain l sm where sc: "centroid_scoring rt st msg (map lb_name labels_api) t =
        Inr (if t \<le> 1 / 2 then Some l else None, sm)"
    and l: "l \<in> set (map lb_name labels_api)"
    using textless_scoring [OF assms(1-3) l0 assms(5), of rt t] by blast
  have "l \<in> lb_name ` set labels_api" using l by simp
  then have ne: "l \<noteq> []" using assms(6) by metis
  have "(\<exists>sg. classify_message rt st llm labels_api (Some t) msg = Inr (Some sg)
               \<and> sugg_source sg = Centroid) \<longleftrightarrow> truthy (if t \<le> 1 / 2 then Some l else None)"
    by (rule classify_message_centroid_iff) (simp add: sc)
  then show "(\<exists>sg. classify_message rt st llm labels_api (Some t) msg = Inr (Some sg)
               \<and> sugg_source sg = Centroid) \<longleftrightarrow> t \<le> 1 / 2"
    using ne by (simp add: truthy_def)
qed

lemma labelled_store_simps:
  "labeled_emails labelled_store = [example_row]" "dim labelled_store = 384"
  "rejected_labels labelled_store = []" "model labelled_store = Some example_encoder"
  by (simp_all add: labelled_store_def init_store_def upsert_labeled_email_def)

lemma textless_message_fields:
  "\<not> truthy (msg_get textless_message ''subject'')"
  "\<not> truthy (msg_get textless_message ''from'')"
  "\<not> truthy (msg_get textless_message ''snippet'')"
  by (simp_all add: textless_message_def msg_get_def truthy_def)

theorem textless_message_gets_centroid_label_witness:
  "query_embedding example_runtime labelled_store textless_message = replicate 384 0
   \<and> (\<exists>sg. classify_message example_runtime labelled_store silent_llm work_labels None
               textless_message = Inr (Some sg) \<and> sugg_source sg = Centroid)
   \<and> \<not> truthy (msg_get textless_message ''subject'')
   \<and> ''Work'' \<in> applied_label ` set (labeled_emails labelled_store)"
proof -
  have a: "''Work'' \<in> lb_name ` set work_labels" "[] \<notin> lb_name ` set work_labels"
    by (simp_all add: work_labels_def)
  have b: "''Work'' \<in> applied_label ` set (labeled_emails labelled_store)"
    by (simp add: labelled_store_simps example_row_def)
  note th = textless_message_gets_centroid_label [OF textless_message_fields a(1) b a(2),
      of example_runtime silent_llm "1 / 2"]
  from th have "query_embedding example_runtime labelled_store textless_message = replicate 384 0"
    by (simp add: labelled_store_simps)
  moreover from th have "\<exists>sg. classify_message example_runtime labelled_store silent_llm
      work_labels None textless_message = Inr (Some sg) \<and> sugg_source sg = Centroid"
    by blast
  ultimately show ?thesis using b textless_message_fields(1) by simp
qed

lemma labelled_store_centroids:
  "get_label_centroids rt labelled_store =
     [(''Work'', centroid_of [(row_embedding rt labelled_store example_row, 5)])]"
  by (simp add: get_label_centroids_def accumulate_def accum_append_def labelled_store_simps
      example_row_def)

text \<open>
  As stated, the claim asks for no centroid result on such a message. With one accepted
  example labelled \<^verbatim>\<open>Work\<close> in the store, the message without text is resolved to
  \<^verbatim>\<open>Work\<close> by the centroid tier, with score \<open>1/2\<close>.
\<close>

theorem textless_message_counterexample:
  "query_embedding example_runtime labelled_store textless_message = replicate 384 0
   \<and> classify_message example_runtime labelled_store silent_llm work_labels None textless_message =
       Inr (Some \<lparr>sugg_message = textless_message, suggested_label = Some ''Work'',
                  label_id = Some ''Label_1'', sugg_source = Centroid,
                  sugg_scores = [(''Work'', 1 / 2)]\<rparr>)"
proof -
  have q: "query_embedding example_runtime labelled_store textless_message = replicate 384 0"
    using textless_query(1) [OF textless_message_fields, of example_runtime labelled_store]
    by (simp add: labelled_store_simps)
  have rej: "get_rejected_labels_for_similar_emails example_runtime labelled_store
      (msg_get_default textless_message ''subject'' [])
      (msg_get_default textless_message ''from'' [])
      (msg_get_default textless_message ''snippet'' []) (7 / 10) = Inr {}"
    by (rule textless_query(2) [OF textless_message_fields])
  have sm: "score_labels (get_label_centroids example_runtime labelled_store) {}
              (replicate 384 0) [''Work''] = [(''Work'', 1 / 2)]"
    by (simp add: labelled_store_centroids score_labels_def)
  have "centroid_scoring example_runtime labelled_store textless_message [''Work''] (40 / 100) =
        Inr (Some ''Work'', [(''Work'', 1 / 2)])"
    by (simp add: centroid_scoring_def Let_def rej q sm) (simp add: labelled_store_centroids)
  then have "classify_message example_runtime labelled_store silent_llm work_labels None
        textless_message =
       Inr (Some \<lparr>sugg_message = textless_message, suggested_label = Some ''Work'',
                  label_id = id_by_name_of work_labels ''Work'', sugg_source = Centroid,
                  sugg_scores = [(''Work'', 1 / 2)]\<rparr>)"
    by (simp add: classify_message_def work_labels_def truthy_def)
  moreover have "id_by_name_of work_labels ''Work'' = Some ''Label_1''"
    by (simp add: id_by_name_of_def work_labels_def)
  ultimately show ?thesis using q by simp
qed

section \<open>The threshold of the centroid tier\<close>

lemma centroid_scoring_Inr:
  assumes "centroid_scoring rt st msg labels t = Inr (best, sm)"
  shows "\<exists>rejected.
           (sm = [] \<or> sm = score_labels (get_label_centroids rt st) rejected
                             (query_embedding rt st msg) labels)
         \<and> (case sm of [] \<Rightarrow> best = None
             | x # xs \<Rightarrow> best = (if t \<le> snd (py_max_by snd x xs)
                                then Some (fst (py_max_by snd x xs)) else None))"
proof (cases "get_label_centroids rt st = []")
  case True
  with assms show ?thesis by (simp add: centroid_scoring_def)
next
  case False
  let ?rej = "get_rejected_labels_for_similar_emails rt st
                (msg_get_default msg ''subject'' []) (msg_get_default msg ''from'' [])
                (msg_get_default msg ''snippet'' []) (7 / 10)"
  from assms False obtain rejected where rej: "?rej = Inr rejected"
    by (cases ?rej) (simp_all add: centroid_scoring_def)
  let ?sm = "score_labels (get_label_centroids rt st) rejected (query_embedding rt st msg) labels"
  show ?thesis
  proof (cases ?sm)
    case Nil
    with assms False rej show ?thesis by (simp add: centroid_scoring_def)
  next
    case (Cons x xs)
    with assms False rej have "sm = ?sm"
      and "best = (if t \<le> snd (py_max_by snd x xs) then Some (fst (py_max_by snd x xs)) else None)"
      by (simp_all add: centroid_scoring_def Let_def split: if_splits)
    then show ?thesis using Cons by (intro exI [of _ rejected]) simp
  qed
qed

lemma centroid_scoring_scores_all:
  assumes "centroid_scoring rt st msg labels t = Inr (best, sm)"
  shows "sm = score_labels (get_label_centroids rt st) {} (query_embedding rt st msg) labels"
proof (cases "get_label_centroids rt st = []")
  case True
  have "score_labels [] {} (query_embedding rt st msg) labels = []"
    by (induction labels rule: rev_induct) (simp_all add: score_labels_snoc, simp add: score_labels_def)
  with assms True show ?thesis by (simp add: centroid_scoring_def)
next
  case False
  let ?rej = "get_rejected_labels_for_similar_emails rt st
                (msg_get_default msg ''subject'' []) (msg_get_default msg ''from'' [])
                (msg_get_default msg ''snippet'' []) (7 / 10)"
  from assms False have "?rej = Inr {}"
    by (cases ?rej) (auto simp: centroid_scoring_def get_rejected_labels_cases split: if_splits)
  with assms False show ?thesis
    by (auto simp: centroid_scoring_def Let_def split: list.splits if_splits)
qed

lemma centroid_scoring_candidates:
  assumes "centroid_scoring rt st msg labels t = Inr (best, sm)"
  shows "(l, s) \<in> set sm \<longleftrightarrow>
           l \<in> set labels \<and>
           (\<exists>c. map_of (get_label_centroids rt st) l = Some c
                \<and> s = (np_dot (query_embedding rt st msg) c + 1) / 2)"
  by (simp add: centroid_scoring_scores_all [OF assms] score_labels_entry)

text \<open>
  Whenever \<^verbatim>\<open>centroid_scoring\<close> returns, it has scored every given label that has a
  centroid, each with the cosine score \<open>s\<close> of the centroid mapped to \<open>(s + 1) / 2\<close>. If
  some candidate reaches the threshold, the best candidate is the suggestion, with source
  \<^verbatim>\<open>centroid\<close>: a score equal to the threshold is enough. If every candidate is strictly
  below it, there is no centroid result and the message goes on to the similar examples
  of the memory. Without a configured threshold the threshold is \<open>0.40\<close>.
\<close>

lemma centroid_threshold_when_scoring_returns:
  assumes "centroid_scoring rt st msg (map lb_name labels_api) t = Inr (best, sm)"
    and "[] \<notin> lb_name ` set labels_api"
  shows "(\<forall>l s. (l, s) \<in> set sm \<longleftrightarrow>
              l \<in> lb_name ` set labels_api \<and>
              (\<exists>c. map_of (get_label_centroids rt st) l = Some c
                   \<and> s = (np_dot (query_embedding rt st msg) c + 1) / 2))
     \<and> (\<forall>p\<in>set sm. \<exists>c. map_of (get_label_centroids rt st) (fst p) = Some c
                      \<and> snd p = (np_dot (query_embedding rt st msg) c + 1) / 2)
     \<and> ((\<exists>p\<in>set sm. t \<le> snd p) \<longrightarrow>
          (\<exists>l s. best = Some l \<and> (l, s) \<in> set sm \<and> t \<le> s \<and> (\<forall>p\<in>set sm. snd p \<le> s)
             \<and> classify_message rt st llm labels_api (Some t) msg =
                 Inr (Some \<lparr>sugg_message = msg, suggested_label = Some l,
                            label_id = id_by_name_of labels_api l,
                            sugg_source = Centroid, sugg_scores = sm\<rparr>)))
     \<and> ((\<forall>p\<in>set sm. snd p < t) \<longrightarrow>
          best = None
          \<and> classify_message rt st llm labels_api (Some t) msg =
              Inr (after_centroid rt st llm labels_api sm msg))
     \<and> classify_message rt st llm labels_api None msg =
         classify_message rt st llm labels_api (Some (40 / 100)) msg"
proof -
  from centroid_scoring_Inr [OF assms(1)] obtain rejected where
    sm: "sm = [] \<or> sm = score_labels (get_label_centroids rt st) rejected
                           (query_embedding rt st msg) (map lb_name labels_api)"
    and best: "case sm of [] \<Rightarrow> best = None
             | x # xs \<Rightarrow> best = (if t \<le> snd (py_max_by snd x xs)
                                then Some (fst (py_max_by snd x xs)) else None)"
    by blast
  have entries: "\<forall>p\<in>set sm. \<exists>c. map_of (get_label_centroids rt st) (fst p) = Some c
                      \<and> snd p = (np_dot (query_embedding rt st msg) c + 1) / 2"
    and names: "\<forall>p\<in>set sm. fst p \<in> lb_name ` set labels_api"
    using sm score_labels_entry [of _ _ "get_label_centroids rt st" rejected
        "query_embedding rt st msg" "map lb_name labels_api"]
    by auto
  have above: "\<exists>l s. best = Some l \<and> (l, s) \<in> set sm \<and> t \<le> s \<and> (\<forall>p\<in>set sm. snd p \<le> s)
             \<and> classify_message rt st llm labels_api (Some t) msg =
                 Inr (Some \<lparr>sugg_message = msg, suggested_label = Some l,
                            label_id = id_by_name_of labels_api l,
                            sugg_source = Centroid, sugg_scores = sm\<rparr>)"
    if ex: "\<exists>p\<in>set sm. t \<le> snd p"
  proof -
    from ex obtain x xs where cons: "sm = x # xs" by (cases sm) auto
    let ?b = "py_max_by snd x xs"
    have mem: "?b \<in> set sm" using py_max_by_mem [of snd x xs] cons by simp
    have ge: "\<forall>p\<in>set sm. snd p \<le> snd ?b"
      using py_max_by_ge [of _ x xs snd] cons by simp
    from ex ge have t: "t \<le> snd ?b" by force
    with best cons have b: "best = Some (fst ?b)" by simp
    have "fst ?b \<in> lb_name ` set labels_api" using names mem by blast
    then have "fst ?b \<noteq> []" using assms(2) by metis
    then have "classify_message rt st llm labels_api (Some t) msg =
                 Inr (Some \<lparr>sugg_message = msg, suggested_label = Some (fst ?b),
                            label_id = id_by_name_of labels_api (fst ?b),
                            sugg_source = Centroid, sugg_scores = sm\<rparr>)"
      using assms(1) b by (simp add: classify_message_def truthy_def)
    moreover have "(fst ?b, snd ?b) \<in> set sm" using mem by simp
    ultimately show ?thesis using b t ge by blast
  qed
  have below: "best = None
          \<and> classify_message rt st llm labels_api (Some t) msg =
              Inr (after_centroid rt st llm labels_api sm msg)"
    if all: "\<forall>p\<in>set sm. snd p < t"
  proof -
    have "best = None"
    proof (cases sm)
      case Nil
      with best show ?thesis by simp
    next
      case (Cons x xs)
      have "py_max_by snd x xs \<in> set sm" using py_max_by_mem [of snd x xs] Cons by simp
      with all have "\<not> t \<le> snd (py_max_by snd x xs)" by force
      with best Cons show ?thesis by simp
    qed
    then show ?thesis using assms(1) by (simp add: classify_message_def truthy_def)
  qed
  have dflt: "classify_message rt st llm labels_api None msg =
         classify_message rt st llm labels_api (Some (40 / 100)) msg"
    by (simp add: classify_message_def)
  have cand: "\<forall>l s. (l, s) \<in> set sm \<longleftrightarrow>
              l \<in> lb_name ` set labels_api \<and>
              (\<exists>c. map_of (get_label_centroids rt st) l = Some c
                   \<and> s = (np_dot (query_embedding rt st msg) c + 1) / 2)"
    using centroid_scoring_candidates [OF assms(1)] by simp
  from cand entries above below dflt show ?thesis by blast
qed

lemma vscale_one [simp]: "vscale 1 v = v"
  by (simp add: vscale_def)

lemma centroid_of_single: "w \<noteq> 0 \<Longrightarrow> centroid_of [(e, w)] = unit_normalize e"
  by (simp add: centroid_of_def np_average_def)

lemma np_dot_unit_normalize:
  "np_dot (unit_normalize u) v = (1 / (np_norm u + eps)) * np_dot u v"
  "np_dot u (unit_normalize v) = (1 / (np_norm v + eps)) * np_dot u v"
  by (simp_all add: unit_normalize_def np_dot_vscale_left np_dot_vscale_right)

lemma example_message_text:
  "joined_text (msg_get example_message ''subject'') (msg_get example_message ''from'')
     (msg_get example_message ''snippet'') =
   ''Invoice 42'' @ [CHR '' '', CHR 0x0A, CHR '' ''] @ ''billing@example.com''
     @ [CHR '' '', CHR 0x0A, CHR '' ''] @ ''Your invoice is attached''"
  by (simp add: joined_text_def truthy_strings_def msg_get_def example_message_def)

lemma example_row_text:
  "joined_text (subject example_row) (sender example_row) (snippet example_row) =
   ''Invoice 42'' @ [CHR '' '', CHR 0x0A, CHR '' ''] @ ''billing@example.com''"
  by (simp add: joined_text_def truthy_strings_def example_row_def)

lemma example_query_embedding:
  "query_embedding rt labelled_store example_message = unit_normalize (map (basis 1) [0..<384])"
  by (simp add: query_embedding_def example_message_text embed_example labelled_store_simps)

lemma example_row_embedding:
  "row_embedding rt labelled_store example_row = unit_normalize (map (basis 0) [0..<384])"
  by (simp add: row_embedding_def example_row_text embed_example labelled_store_simps)

lemma example_score_map:
  "score_labels (get_label_centroids rt labelled_store) {}
     (query_embedding rt labelled_store example_message) [''Work''] = [(''Work'', 1 / 2)]"
  by (simp add: labelled_store_centroids score_labels_def centroid_of_single
      example_query_embedding example_row_embedding np_dot_unit_normalize np_dot_basis)

lemma example_centroid_scoring:
  "centroid_scoring rt labelled_store example_message [''Work''] t =
     Inr (if t \<le> 1 / 2 then Some ''Work'' else None, [(''Work'', 1 / 2)])"
proof -
  have rej: "get_rejected_labels_for_similar_emails rt labelled_store sb sn sp thr = Inr {}"
    for sb sn sp thr
    by (simp add: get_rejected_labels_for_similar_emails_def labelled_store_simps)
  have ne: "get_label_centroids rt labelled_store \<noteq> []"
    by (simp add: labelled_store_centroids)
  show ?thesis
    by (simp add: centroid_scoring_def Let_def rej ne example_score_map)
qed

lemma centroid_threshold_example:
  "centroid_scoring example_runtime labelled_store example_message (map lb_name work_labels)
     (1 / 2) = Inr (Some ''Work'', [(''Work'', 1 / 2)])
   \<and> classify_message example_runtime labelled_store silent_llm work_labels (Some (1 / 2))
       example_message =
       Inr (Some \<lparr>sugg_message = example_message, suggested_label = Some ''Work'',
                  label_id = Some ''Label_1'', sugg_source = Centroid,
                  sugg_scores = [(''Work'', 1 / 2)]\<rparr>)
   \<and> centroid_scoring example_runtime labelled_store example_message (map lb_name work_labels)
       (51 / 100) = Inr (None, [(''Work'', 1 / 2)])
   \<and> classify_message example_runtime labelled_store silent_llm work_labels (Some (51 / 100))
       example_message =
       Inr (after_centroid example_runtime labelled_store silent_llm work_labels
              [(''Work'', 1 / 2)] example_message)"
proof -
  have names: "map lb_name work_labels = [''Work'']" "[] \<notin> lb_name ` set work_labels"
    by (simp_all add: work_labels_def)
  have at: "centroid_scoring example_runtime labelled_store example_message
      (map lb_name work_labels) (1 / 2) = Inr (Some ''Work'', [(''Work'', 1 / 2)])"
    by (simp add: names example_centroid_scoring)
  have below: "centroid_scoring example_runtime labelled_store example_message
      (map lb_name work_labels) (51 / 100) = Inr (None, [(''Work'', 1 / 2)])"
    by (simp add: names example_centroid_scoring)
  have lid: "id_by_name_of work_labels ''Work'' = Some ''Label_1''"
    by (simp add: id_by_name_of_def work_labels_def)
  have reach: "\<exists>p\<in>set [(''Work'', 1 / 2 :: real)]. 1 / 2 \<le> snd p" by simp
  from centroid_threshold_when_scoring_returns [OF at names(2), of silent_llm,
      THEN conjunct2, THEN conjunct2, THEN conjunct1, THEN mp, OF reach]
  obtain l s where "(l, s) \<in> set [(''Work'', 1 / 2 :: real)]"
    and "classify_message example_runtime labelled_store silent_llm work_labels (Some (1 / 2))
           example_message =
         Inr (Some \<lparr>sugg_message = example_message, suggested_label = Some l,
                    label_id = id_by_name_of work_labels l, sugg_source = Centroid,
                    sugg_scores = [(''Work'', 1 / 2)]\<rparr>)"
    by blast
  then have one: "classify_message example_runtime labelled_store silent_llm work_labels
       (Some (1 / 2)) example_message =
       Inr (Some \<lparr>sugg_message = example_message, suggested_label = Some ''Work'',
                  label_id = Some ''Label_1'', sugg_source = Centroid,
                  sugg_scores = [(''Work'', 1 / 2)]\<rparr>)"
    by (simp add: lid)
  have miss: "\<forall>p\<in>set [(''Work'', 1 / 2 :: real)]. snd p < 51 / 100" by simp
  from centroid_threshold_when_scoring_returns [OF below names(2), of silent_llm,
      THEN conjunct2, THEN conjunct2, THEN conjunct2, THEN conjunct1, THEN mp, OF miss]
  have two: "classify_message example_runtime labelled_store silent_llm work_labels
       (Some (51 / 100)) example_message =
       Inr (after_centroid example_runtime labelled_store silent_llm work_labels
              [(''Work'', 1 / 2)] example_message)"
    by simp
  from at one below two show ?thesis by simp
qed

section \<open>Rejected labels\<close>

lemma get_rejected_labels_spec:
  "get_rejected_labels_for_similar_emails rt st sb sn sp thr =
     (if getRejectedLabelsForSimilarMessages rt st sb sn sp thr = {} then Inr {}
      else Inl (NameError ''logger''))"
  by (auto simp: get_rejected_labels_cases getRejectedLabelsForSimilarMessages_def
      rejected_similarity_def)

lemma score_labels_skips_rejected:
  "l \<in> rejected \<Longrightarrow> l \<notin> fst ` set (score_labels centroids rejected q labels)"
  using score_labels_entry [of l _ centroids rejected q labels] by auto

lemma after_centroid_empty_table:
  assumes "labeled_emails st = []" and "after_centroid rt st llm labels_api sm msg = Some sg"
  shows "sugg_source sg = Llm"
proof -
  have "memory_similar_examples rt st msg = []"
    using assms(1) by (simp add: memory_similar_examples_def get_messages_by_ids_def)
  then have "majority_label_from_similar (memory_similar_examples rt st msg) = None"
    by (simp add: majority_label_from_similar_def count_labels_def)
  with assms(2) show ?thesis
    by (auto simp: after_centroid_def Let_def truthy_def split: option.splits if_splits)
qed

text \<open>
  Claim C1. A label that \<^verbatim>\<open>getRejectedLabelsForSimilarMessages\<close> holds for a message is
  never the suggestion of the centroid tier or of the majority tier of \<^verbatim>\<open>node_classify\<close>
  for that message. The scoring loop skips every label of the rejected set it is given.
  With a label in the set, the lookup itself ends in the \<^verbatim>\<open>NameError\<close> of claim C3 as soon
  as the store holds a labelled example; with no labelled example there is no centroid and
  no similar example, and the message goes to the generative tier.
\<close>

theorem rejected_label_never_suggested:
  assumes "l \<in> getRejectedLabelsForSimilarMessages rt st (msg_get_default msg ''subject'' [])
                 (msg_get_default msg ''from'' []) (msg_get_default msg ''snippet'' []) (7 / 10)"
  shows "\<not> (\<exists>sg. classify_message rt st llm labels_api score_threshold msg = Inr (Some sg)
              \<and> (sugg_source sg = Centroid \<or> sugg_source sg = Memory_similar)
              \<and> suggested_label sg = Some l)
     \<and> (labeled_emails st \<noteq> [] \<longrightarrow>
          classify_message rt st llm labels_api score_threshold msg = Inl (NameError ''logger''))
     \<and> (labeled_emails st = [] \<longrightarrow>
          classify_message rt st llm labels_api score_threshold msg =
            Inr (after_centroid rt st llm labels_api [] msg))
     \<and> (\<forall>rejected. l \<in> rejected \<longrightarrow>
          l \<notin> fst ` set (score_labels (get_label_centroids rt st) rejected
                            (query_embedding rt st msg) (map lb_name labels_api)))"
proof -
  have raise: "get_rejected_labels_for_similar_emails rt st (msg_get_default msg ''subject'' [])
                 (msg_get_default msg ''from'' []) (msg_get_default msg ''snippet'' []) (7 / 10)
               = Inl (NameError ''logger'')"
    using assms by (auto simp: get_rejected_labels_spec)
  have full: "classify_message rt st llm labels_api score_threshold msg = Inl (NameError ''logger'')"
    if "labeled_emails st \<noteq> []"
    using that raise
    by (simp add: classify_message_def centroid_scoring_def Let_def get_label_centroids_nonempty)
  have empty: "classify_message rt st llm labels_api score_threshold msg =
            Inr (after_centroid rt st llm labels_api [] msg)"
    if "labeled_emails st = []"
    using that
    by (simp add: classify_message_def centroid_scoring_def Let_def get_label_centroids_empty
        truthy_def)
  have none: "\<not> (\<exists>sg. classify_message rt st llm labels_api score_threshold msg = Inr (Some sg)
              \<and> (sugg_source sg = Centroid \<or> sugg_source sg = Memory_similar)
              \<and> suggested_label sg = Some l)"
  proof (cases "labeled_emails st = []")
    case True
    show ?thesis
      using empty [OF True] after_centroid_empty_table [OF True, of rt llm labels_api "[]" msg]
      by auto
  next
    case False
    show ?thesis using full [OF False] by simp
  qed
  from none full empty show ?thesis
    by (auto dest: score_labels_skips_rejected)
qed

lemma example_self_similar:
  assumes "dim st = 384" and "model st = Some example_encoder" and "text \<noteq> []"
  shows "float_ge (cosine (embed rt st text) (embed rt st text)) (7 / 10)"
proof -
  have "length text mod 2 < 384" by (rule less_trans [of _ 2]) simp_all
  then have nz: "np_norm (unit_normalize (map (basis (length text mod 2)) [0..<384])) \<noteq> 0"
    using eps_pos by (simp add: np_norm_unit_normalize_basis)
  show ?thesis
    using assms by (simp add: embed_example cosine_self [OF nz] float_ge_def)
qed

lemma rejected_and_labelled_store_simps:
  "dim rejected_and_labelled_store = 384"
  "model rejected_and_labelled_store = Some example_encoder"
  "labeled_emails rejected_and_labelled_store = [example_row]"
  "rejected_labels rejected_and_labelled_store =
     [\<lparr>rej_message_id = ''m1'', rej_subject = Some ''Invoice 42'', rej_sender = None,
       rej_snippet = None, rejected_label = ''Work''\<rparr>]"
  by (simp_all add: rejected_and_labelled_store_def store_rejected_label_def Let_def
      labelled_store_simps)

lemma subject_only_message_rejected:
  "''Work'' \<in> getRejectedLabelsForSimilarMessages rt rejected_and_labelled_store
       (msg_get_default subject_only_message ''subject'' [])
       (msg_get_default subject_only_message ''from'' [])
       (msg_get_default subject_only_message ''snippet'' []) (7 / 10)"
proof -
  have fields: "msg_get_default subject_only_message ''subject'' [] = Some ''Invoice 42''"
    "msg_get_default subject_only_message ''from'' [] = Some []"
    "msg_get_default subject_only_message ''snippet'' [] = Some []"
    by (simp_all add: msg_get_default_def subject_only_message_def)
  have joined: "joined_text (Some ''Invoice 42'') (Some []) (Some []) = ''Invoice 42''"
    by (simp add: joined_text_def truthy_strings_def)
  have "float_ge (cosine (embed rt rejected_and_labelled_store ''Invoice 42'')
                    (embed rt rejected_and_labelled_store ''Invoice 42'')) (7 / 10)"
    by (rule example_self_similar) (simp_all add: rejected_and_labelled_store_simps)
  then show ?thesis
    unfolding getRejectedLabelsForSimilarMessages_def fields joined
    by (intro image_eqI [where x = "\<lparr>rej_message_id = ''m1'', rej_subject = Some ''Invoice 42'',
          rej_sender = None, rej_snippet = None, rejected_label = ''Work''\<rparr>"])
       (simp_all add: rejected_and_labelled_store_simps)
qed

theorem rejected_label_never_suggested_witness:
  "''Work'' \<in> getRejectedLabelsForSimilarMessages example_runtime rejected_and_labelled_store
       (msg_get_default subject_only_message ''subject'' [])
       (msg_get_default subject_only_message ''from'' [])
       (msg_get_default subject_only_message ''snippet'' []) (7 / 10)
   \<and> classify_message example_runtime rejected_and_labelled_store silent_llm work_labels None
       subject_only_message = Inl (NameError ''logger'')
   \<and> ''Work'' \<in> applied_label ` set (labeled_emails rejected_and_labelled_store)"
proof -
  note th = rejected_label_never_suggested [OF subject_only_message_rejected,
      of example_runtime silent_llm work_labels None]
  have ne: "labeled_emails rejected_and_labelled_store \<noteq> []"
    by (simp add: rejected_and_labelled_store_simps)
  from th [THEN conjunct2, THEN conjunct1, THEN mp, OF ne]
  have "classify_message example_runtime rejected_and_labelled_store silent_llm work_labels None
       subject_only_message = Inl (NameError ''logger'')" .
  then show ?thesis
    using subject_only_message_rejected [of example_runtime]
    by (simp add: rejected_and_labelled_store_simps example_row_def)
qed

section \<open>The centroid tier and a similar rejection\<close>

lemma np_dot_unit_normalize_nonneg:
  "0 \<le> np_dot u v \<Longrightarrow> 0 \<le> np_dot (unit_normalize u) v"
  "0 \<le> np_dot u v \<Longrightarrow> 0 \<le> np_dot u (unit_normalize v)"
proof -
  have pos: "0 \<le> 1 / (np_norm w + eps)" for w
    using np_norm_nonneg [of w] eps_pos by simp
  show "0 \<le> np_dot u v \<Longrightarrow> 0 \<le> np_dot (unit_normalize u) v"
    using pos [of u] by (simp only: np_dot_unit_normalize) (rule mult_nonneg_nonneg)
  show "0 \<le> np_dot u v \<Longrightarrow> 0 \<le> np_dot u (unit_normalize v)"
    using pos [of v] by (simp only: np_dot_unit_normalize) (rule mult_nonneg_nonneg)
qed

lemma other_rejected_store_simps:
  "dim other_rejected_store = 384" "model other_rejected_store = Some example_encoder"
  "labeled_emails other_rejected_store = [example_row]"
  "rejected_labels other_rejected_store =
     [\<lparr>rej_message_id = ''m9'', rej_subject = Some ''Invoice 42'', rej_sender = None,
       rej_snippet = None, rejected_label = ''Other''\<rparr>]"
  by (simp_all add: other_rejected_store_def store_rejected_label_def Let_def labelled_store_simps)

lemma subject_only_fields:
  "msg_get_default subject_only_message ''subject'' [] = Some ''Invoice 42''"
  "msg_get_default subject_only_message ''from'' [] = Some []"
  "msg_get_default subject_only_message ''snippet'' [] = Some []"
  "msg_get subject_only_message ''subject'' = Some ''Invoice 42''"
  "msg_get subject_only_message ''from'' = None"
  "msg_get subject_only_message ''snippet'' = None"
  by (simp_all add: msg_get_default_def msg_get_def subject_only_message_def)

lemma single_similar_rejection:
  assumes "rejected_labels st = [r]"
    and "float_ge (cosine (embed rt st (joined_text sb sn sp))
                     (embed rt st (joined_text (rej_subject r) (rej_sender r) (rej_snippet r))))
           thr"
  shows "getRejectedLabelsForSimilarMessages rt st sb sn sp thr = {rejected_label r}"
  using assms by (auto simp: getRejectedLabelsForSimilarMessages_def)

lemma similar_rejection_of_other:
  "getRejectedLabelsForSimilarMessages rt other_rejected_store
     (msg_get_default subject_only_message ''subject'' [])
     (msg_get_default subject_only_message ''from'' [])
     (msg_get_default subject_only_message ''snippet'' []) (7 / 10) = {''Other''}"
proof -
  let ?r = "\<lparr>rej_message_id = ''m9'', rej_subject = Some ''Invoice 42'', rej_sender = None,
             rej_snippet = None, rejected_label = ''Other''\<rparr>"
  have joined: "joined_text (Some ''Invoice 42'') (Some []) (Some []) = ''Invoice 42''"
    "joined_text (rej_subject ?r) (rej_sender ?r) (rej_snippet ?r) = ''Invoice 42''"
    by (simp_all add: joined_text_def truthy_strings_def)
  have sim: "float_ge (cosine (embed rt other_rejected_store ''Invoice 42'')
                    (embed rt other_rejected_store ''Invoice 42'')) (7 / 10)"
    by (rule example_self_similar) (simp_all add: other_rejected_store_simps)
  have "getRejectedLabelsForSimilarMessages rt other_rejected_store
     (Some ''Invoice 42'') (Some []) (Some []) (7 / 10) = {rejected_label ?r}"
    by (rule single_similar_rejection)
       (simp_all only: other_rejected_store_simps joined sim)
  then show ?thesis by (simp add: subject_only_fields)
qed

lemma subject_only_query:
  "dim st = 384 \<Longrightarrow> model st = Some example_encoder \<Longrightarrow>
   query_embedding rt st subject_only_message = unit_normalize (map (basis 0) [0..<384])"
  by (simp add: query_embedding_def subject_only_fields embed_example)

lemma single_work_centroids:
  assumes "dim st = 384" and "model st = Some example_encoder"
    and "labeled_emails st = [example_row]"
  shows "get_label_centroids rt st =
           [(''Work'', unit_normalize (unit_normalize (map (basis 0) [0..<384])))]"
proof -
  have emb: "row_embedding rt st example_row = unit_normalize (map (basis 0) [0..<384])"
    using assms by (simp add: row_embedding_def example_row_text embed_example)
  have "get_label_centroids rt st =
          [(applied_label example_row, unit_normalize (row_embedding rt st example_row))]"
    using assms(3)
    by (simp add: get_label_centroids_def accumulate_def accum_append_def centroid_of_single)
  moreover have "applied_label example_row = ''Work''" by (simp add: example_row_def)
  ultimately show ?thesis by (simp only: emb)
qed

lemma nonneg_dot_reaches_default: "0 \<le> (d::real) \<Longrightarrow> 40 / 100 \<le> (d + 1) / 2"
  by simp

lemma work_score_reaches_default:
  "40 / 100 \<le> (np_dot (unit_normalize (map (basis 0) [0..<384]))
                   (unit_normalize (unit_normalize (map (basis 0) [0..<384]))) + 1) / 2"
proof -
  have "0 \<le> np_dot (map (basis 0) [0..<384]) (map (basis 0) [0..<384])"
    by (rule np_dot_self_nonneg)
  then have "0 \<le> np_dot (unit_normalize (map (basis 0) [0..<384]))
                   (unit_normalize (unit_normalize (map (basis 0) [0..<384])))"
    by (intro np_dot_unit_normalize_nonneg)
  then show ?thesis by (rule nonneg_dot_reaches_default)
qed

text \<open>
  Claim C5. The claim asks that the centroid tier resolves a message exactly when its
  best candidate's mapped score reaches the threshold. The store holds one accepted
  example labelled \<^verbatim>\<open>Work\<close> and one rejection of the label \<^verbatim>\<open>Other\<close> for the subject
  \<^verbatim>\<open>Invoice 42\<close>. For a message with that subject the label \<^verbatim>\<open>Work\<close> is not rejected,
  has a centroid and a mapped score of at least \<open>0.40\<close>, yet the classification ends in
  the \<^verbatim>\<open>NameError\<close> of the store's rejected-label lookup and resolves nothing. Without
  the stored rejection the same message is resolved to \<^verbatim>\<open>Work\<close> by the centroid tier.
\<close>

theorem similar_rejection_blocks_centroid:
  "''Work'' \<notin> getRejectedLabelsForSimilarMessages example_runtime other_rejected_store
       (msg_get_default subject_only_message ''subject'' [])
       (msg_get_default subject_only_message ''from'' [])
       (msg_get_default subject_only_message ''snippet'' []) (7 / 10)
   \<and> map_of (get_label_centroids example_runtime other_rejected_store) ''Work'' =
       Some (unit_normalize (unit_normalize (map (basis 0) [0..<384])))
   \<and> 40 / 100 \<le> (np_dot (query_embedding example_runtime other_rejected_store subject_only_message)
                      (unit_normalize (unit_normalize (map (basis 0) [0..<384]))) + 1) / 2
   \<and> classify_message example_runtime other_rejected_store silent_llm work_labels None
       subject_only_message = Inl (NameError ''logger'')
   \<and> classify_message example_runtime labelled_store silent_llm work_labels None
       subject_only_message =
       Inr (Some \<lparr>sugg_message = subject_only_message, suggested_label = Some ''Work'',
                  label_id = Some ''Label_1'', sugg_source = Centroid,
                  sugg_scores =
                    [(''Work'',
                      (np_dot (unit_normalize (map (basis 0) [0..<384]))
                         (unit_normalize (unit_normalize (map (basis 0) [0..<384]))) + 1) / 2)]\<rparr>)"
proof -
  note o = other_rejected_store_simps
  have one: "''Work'' \<notin> getRejectedLabelsForSimilarMessages example_runtime other_rejected_store
       (msg_get_default subject_only_message ''subject'' [])
       (msg_get_default subject_only_message ''from'' [])
       (msg_get_default subject_only_message ''snippet'' []) (7 / 10)"
    by (simp add: similar_rejection_of_other)
  have cs: "get_label_centroids example_runtime other_rejected_store =
           [(''Work'', unit_normalize (unit_normalize (map (basis 0) [0..<384])))]"
    by (rule single_work_centroids) (simp_all add: o)
  have two: "map_of (get_label_centroids example_runtime other_rejected_store) ''Work'' =
       Some (unit_normalize (unit_normalize (map (basis 0) [0..<384])))"
    by (simp add: cs)
  have three: "40 / 100 \<le> (np_dot (query_embedding example_runtime other_rejected_store
                                   subject_only_message)
                      (unit_normalize (unit_normalize (map (basis 0) [0..<384]))) + 1) / 2"
    using work_score_reaches_default by (simp add: subject_only_query o)
  have "get_rejected_labels_for_similar_emails example_runtime other_rejected_store
       (msg_get_default subject_only_message ''subject'' [])
       (msg_get_default subject_only_message ''from'' [])
       (msg_get_default subject_only_message ''snippet'' []) (7 / 10) = Inl (NameError ''logger'')"
    by (simp add: get_rejected_labels_spec similar_rejection_of_other)
  then have four: "classify_message example_runtime other_rejected_store silent_llm work_labels
       None subject_only_message = Inl (NameError ''logger'')"
    by (simp add: classify_message_def centroid_scoring_def Let_def cs)
  have cl: "get_label_centroids example_runtime labelled_store =
           [(''Work'', unit_normalize (unit_normalize (map (basis 0) [0..<384])))]"
    by (rule single_work_centroids) (simp_all add: labelled_store_simps)
  have rej: "get_rejected_labels_for_similar_emails example_runtime labelled_store sb sn sp thr
             = Inr {}" for sb sn sp thr
    by (simp add: get_rejected_labels_for_similar_emails_def labelled_store_simps)
  have sm: "score_labels (get_label_centroids example_runtime labelled_store) {}
              (query_embedding example_runtime labelled_store subject_only_message) [''Work''] =
            [(''Work'', (np_dot (unit_normalize (map (basis 0) [0..<384]))
                           (unit_normalize (unit_normalize (map (basis 0) [0..<384]))) + 1) / 2)]"
    by (simp add: cl score_labels_def subject_only_query labelled_store_simps)
  have "centroid_scoring example_runtime labelled_store subject_only_message [''Work'']
          (40 / 100) =
        Inr (Some ''Work'',
             [(''Work'', (np_dot (unit_normalize (map (basis 0) [0..<384]))
                           (unit_normalize (unit_normalize (map (basis 0) [0..<384]))) + 1) / 2)])"
    using work_score_reaches_default
    by (simp add: centroid_scoring_def Let_def rej sm) (simp add: cl)
  moreover have "id_by_name_of work_labels ''Work'' = Some ''Label_1''"
    by (simp add: id_by_name_of_def work_labels_def)
  ultimately have five: "classify_message example_runtime labelled_store silent_llm work_labels
       None subject_only_message =
       Inr (Some \<lparr>sugg_message = subject_only_message, suggested_label = Some ''Work'',
                  label_id = Some ''Label_1'', sugg_source = Centroid,
                  sugg_scores =
                    [(''Work'',
                      (np_dot (unit_normalize (map (basis 0) [0..<384]))
                         (unit_normalize (unit_normalize (map (basis 0) [0..<384]))) + 1) / 2)]\<rparr>)"
    by (simp add: classify_message_def work_labels_def truthy_def)
  from one two three four five show ?thesis by (intro conjI)
qed

section \<open>The centroids\<close>

lemma vscale_vscale: "vscale a (vscale b v) = vscale (a * b) v"
  by (simp add: vscale_def)

lemma vscale_vadd: "vscale a (vadd u v) = vadd (vscale a u) (vscale a v)"
proof (induction u arbitrary: v)
  case Nil
  show ?case by (simp add: vscale_def vadd_def)
next
  case (Cons x u)
  show ?case
  proof (cases v)
    case Nil
    then show ?thesis by (simp add: vscale_def vadd_def)
  next
    case (Cons y w)
    have "vscale a (vadd u w) = vadd (vscale a u) (vscale a w)" by (rule Cons.IH)
    then show ?thesis using Cons by (simp add: vscale_def vadd_def algebra_simps)
  qed
qed

lemma vsum_map_vscale: "vsum (map (vscale a) vs) = vscale a (vsum vs)"
proof (induction vs rule: vsum.induct)
  case 1
  show ?case by (simp add: vscale_def)
next
  case (2 v)
  show ?case by simp
next
  case (3 v w vs)
  then show ?case by (simp add: vscale_vadd)
qed

lemma sum_list_scaled: "sum_list (map (\<lambda>w. w / s) ws) = sum_list ws / (s::real)"
  by (induction ws) (simp_all add: add_divide_distrib)

lemma map2_vscale_scaled:
  "map2 vscale (map (\<lambda>w. w / s) (map snd vws)) (map fst vws) =
     map (vscale (1 / s)) (map (\<lambda>(v, w). vscale w v) vws)"
  by (induction vws) (auto simp: vscale_vscale)

lemma centroid_of_weighted_mean:
  assumes "sum_list (map snd vws) \<noteq> 0"
  shows "centroid_of vws = unit_normalize (weighted_mean vws)"
proof -
  let ?s = "sum_list (map snd vws)"
  have one: "sum_list (map (\<lambda>w. w / ?s) (map snd vws)) = 1"
    using assms by (simp only: sum_list_scaled) simp
  have "np_average (map fst vws) (map (\<lambda>w. w / ?s) (map snd vws)) = weighted_mean vws"
    unfolding np_average_def one map2_vscale_scaled vsum_map_vscale weighted_mean_def
    by simp
  then show ?thesis by (simp add: centroid_of_def Let_def)
qed

lemma label_examples_weights:
  "l \<in> applied_label ` set rows \<Longrightarrow> 0 < sum_list (map snd (label_examples rt st l rows))"
proof (induction rows)
  case Nil
  then show ?case by simp
next
  case (Cons r rows)
  have nonneg: "0 \<le> sum_list (map snd (label_examples rt st l rows))"
    by (rule sum_list_nonneg) (auto simp: label_examples_def)
  show ?case
  proof (cases "applied_label r = l")
    case True
    have "label_examples rt st l (r # rows) =
          (row_embedding rt st r, if accepted r then 5 else 1) # label_examples rt st l rows"
      using True by (simp add: label_examples_def)
    with nonneg show ?thesis by simp
  next
    case False
    with Cons.prems have "l \<in> applied_label ` set rows" by auto
    with Cons.IH False show ?thesis by (simp add: label_examples_def)
  qed
qed

lemma np_dot_vadd_left:
  "length u = length w \<Longrightarrow> np_dot (vadd u w) v = np_dot u v + np_dot w v"
proof (induction u w arbitrary: v rule: list_induct2)
  case Nil
  show ?case by (simp add: vadd_def)
next
  case (Cons x xs y ys)
  have step: "vadd (x # xs) (y # ys) = (x + y) # vadd xs ys" by (simp add: vadd_def)
  show ?case
  proof (cases v)
    case Nil
    then show ?thesis by simp
  next
    case (Cons z zs)
    then show ?thesis using Cons.IH [of zs] by (simp add: step algebra_simps)
  qed
qed

lemma length_vscale [simp]: "length (vscale a v) = length v"
  by (simp add: vscale_def)

lemma weighted_mean_pair:
  "weighted_mean [(e1, 5), (e2, 1)] = vadd (vscale (5 / 6) e1) (vscale (1 / 6) e2)"
  by (simp add: weighted_mean_def vscale_vadd vscale_vscale)

lemma length_unit_normalize [simp]: "length (unit_normalize v) = length v"
  by (simp add: unit_normalize_def)

lemma length_embed [simp]: "length (embed rt st text) = dim st"
  by (simp add: embed_def model_encode_def fallback_embed_def split: option.splits)

lemma length_row_embedding [simp]: "length (row_embedding rt st r) = dim st"
  by (simp add: row_embedding_def)

lemma length_vadd [simp]: "length (vadd u v) = min (length u) (length v)"
  by (simp add: vadd_def)

lemma length_vsum:
  "vs \<noteq> [] \<Longrightarrow> \<forall>v\<in>set vs. length v = n \<Longrightarrow> length (vsum vs) = n"
  by (induction vs rule: vsum.induct) simp_all

lemma length_weighted_mean:
  assumes "vws \<noteq> []" and "\<forall>p\<in>set vws. length (fst p) = n"
  shows "length (weighted_mean vws) = n"
proof -
  have "length (vsum (map (\<lambda>(v, w). vscale w v) vws)) = n"
    using assms by (intro length_vsum) (auto simp: case_prod_unfold)
  then show ?thesis by (simp add: weighted_mean_def)
qed

lemma length_label_mean:
  assumes "l \<in> applied_label ` set rows"
  shows "length (weighted_mean (label_examples rt st l rows)) = dim st"
proof (rule length_weighted_mean)
  show "label_examples rt st l rows \<noteq> []"
    using assms by (rule label_examples_nonempty)
  show "\<forall>p\<in>set (label_examples rt st l rows). length (fst p) = dim st"
    by (auto simp: label_examples_def)
qed

lemma np_dot_self_zero: "np_dot v v = 0 \<Longrightarrow> v = replicate (length v) 0"
proof (induction v)
  case Nil
  show ?case by simp
next
  case (Cons x v)
  have "0 \<le> x * x" "0 \<le> np_dot v v" by (simp_all add: np_dot_self_nonneg)
  with Cons.prems have "x * x = 0" "np_dot v v = 0" by (simp_all add: add_nonneg_eq_0_iff)
  with Cons.IH show ?case by simp
qed

lemma unit_normalize_zero_norm:
  assumes "np_norm v = 0"
  shows "unit_normalize v = replicate (length v) 0"
proof -
  have "np_dot v v = 0" using assms by (simp add: np_norm_def)
  then have "v = replicate (length v) 0" by (rule np_dot_self_zero)
  then have "unit_normalize v = unit_normalize (replicate (length v) 0)" by simp
  then show ?thesis by simp
qed

lemma pair_ratio:
  assumes "length ea = length eb" and "np_dot ea eb = 0" and "np_dot ea ea = np_dot eb eb"
  shows "np_dot (unit_normalize (vadd (vscale (5 / 6) ea) (vscale (1 / 6) eb))) ea =
         5 * np_dot (unit_normalize (vadd (vscale (5 / 6) ea) (vscale (1 / 6) eb))) eb"
proof -
  have len: "length (vscale (5 / 6) ea) = length (vscale (1 / 6) eb)" using assms(1) by simp
  have "np_dot (vadd (vscale (5 / 6) ea) (vscale (1 / 6) eb)) x =
        5 / 6 * np_dot ea x + 1 / 6 * np_dot eb x" for x
    by (simp add: np_dot_vadd_left [OF len] np_dot_vscale_left)
  then show ?thesis
    using assms(2,3)
    by (simp add: np_dot_unit_normalize np_dot_commute [of eb ea])
qed

lemma label_examples_pair:
  assumes "filter (\<lambda>r. applied_label r = l) rows = [a, b]" and "accepted a" and "\<not> accepted b"
  shows "label_examples rt st l rows = [(row_embedding rt st a, 5), (row_embedding rt st b, 1)]"
  using assms by (simp add: label_examples_def)

text \<open>
  Claim C4, as amended. For a label with at least one stored example,
  \<^verbatim>\<open>get_label_centroids\<close> returns the weighted mean of the embeddings of all rows with
  that label, accepted or not, with weight 5 for an accepted row and 1 for another,
  normalised as the code normalises, by the division by its norm plus \<^verbatim>\<open>1e-8\<close>. When
  that mean is zero the centroid is the zero vector. A label without example has no
  centroid, and without rows the mapping is empty. For one accepted and one other
  example whose embeddings are orthogonal and of equal length, the centroid is the
  normalised \<open>(5 a + b) / 6\<close>, and its components along the two embeddings are as 5 to 1.
\<close>

theorem label_centroids_weighted_mean:
  "(l \<in> applied_label ` set (labeled_emails st) \<longrightarrow>
      map_of (get_label_centroids rt st) l =
        Some (unit_normalize (weighted_mean (label_examples rt st l (labeled_emails st))))
      \<and> (np_norm (weighted_mean (label_examples rt st l (labeled_emails st))) = 0 \<longrightarrow>
           map_of (get_label_centroids rt st) l = Some (replicate (dim st) 0)))
   \<and> (l \<notin> applied_label ` set (labeled_emails st) \<longrightarrow>
        map_of (get_label_centroids rt st) l = None)
   \<and> (labeled_emails st = [] \<longrightarrow> get_label_centroids rt st = [])
   \<and> (filter (\<lambda>r. applied_label r = l) (labeled_emails st) = [a, b]
        \<and> accepted a \<and> \<not> accepted b
        \<and> np_dot (row_embedding rt st a) (row_embedding rt st b) = 0
        \<and> np_dot (row_embedding rt st a) (row_embedding rt st a) =
            np_dot (row_embedding rt st b) (row_embedding rt st b) \<longrightarrow>
        map_of (get_label_centroids rt st) l =
          Some (unit_normalize (vadd (vscale (5 / 6) (row_embedding rt st a))
                                     (vscale (1 / 6) (row_embedding rt st b))))
        \<and> np_dot (unit_normalize (vadd (vscale (5 / 6) (row_embedding rt st a))
                                        (vscale (1 / 6) (row_embedding rt st b))))
              (row_embedding rt st a) =
            5 * np_dot (unit_normalize (vadd (vscale (5 / 6) (row_embedding rt st a))
                                             (vscale (1 / 6) (row_embedding rt st b))))
                  (row_embedding rt st b))"
proof -
  let ?m = "weighted_mean (label_examples rt st l (labeled_emails st))"
  have centroid: "map_of (get_label_centroids rt st) l = Some (unit_normalize ?m)"
    if l: "l \<in> applied_label ` set (labeled_emails st)"
  proof -
    have "sum_list (map snd (label_examples rt st l (labeled_emails st))) \<noteq> 0"
      using label_examples_weights [OF l, of rt st] by simp
    then show ?thesis
      using l by (simp add: map_of_get_label_centroids centroid_of_weighted_mean)
  qed
  have zero: "map_of (get_label_centroids rt st) l = Some (replicate (dim st) 0)"
    if l: "l \<in> applied_label ` set (labeled_emails st)" and z: "np_norm ?m = 0"
    using centroid [OF l] unit_normalize_zero_norm [OF z] length_label_mean [OF l, of rt st]
    by simp
  have none: "map_of (get_label_centroids rt st) l = None"
    if "l \<notin> applied_label ` set (labeled_emails st)"
    using that by (simp add: map_of_get_label_centroids)
  have empty: "get_label_centroids rt st = []" if "labeled_emails st = []"
    using that by (rule get_label_centroids_empty)
  have pair: "map_of (get_label_centroids rt st) l =
          Some (unit_normalize (vadd (vscale (5 / 6) (row_embedding rt st a))
                                     (vscale (1 / 6) (row_embedding rt st b))))
        \<and> np_dot (unit_normalize (vadd (vscale (5 / 6) (row_embedding rt st a))
                                        (vscale (1 / 6) (row_embedding rt st b))))
              (row_embedding rt st a) =
            5 * np_dot (unit_normalize (vadd (vscale (5 / 6) (row_embedding rt st a))
                                             (vscale (1 / 6) (row_embedding rt st b))))
                  (row_embedding rt st b)"
    if f: "filter (\<lambda>r. applied_label r = l) (labeled_emails st) = [a, b]"
      and acc: "accepted a" "\<not> accepted b"
      and orth: "np_dot (row_embedding rt st a) (row_embedding rt st b) = 0"
      and eq: "np_dot (row_embedding rt st a) (row_embedding rt st a) =
            np_dot (row_embedding rt st b) (row_embedding rt st b)"
  proof -
    have "a \<in> set (filter (\<lambda>r. applied_label r = l) (labeled_emails st))" using f by simp
    then have l: "l \<in> applied_label ` set (labeled_emails st)" by auto
    have "?m = vadd (vscale (5 / 6) (row_embedding rt st a)) (vscale (1 / 6) (row_embedding rt st b))"
      by (simp only: label_examples_pair [OF f acc] weighted_mean_pair)
    with centroid [OF l] pair_ratio [OF _ orth eq] show ?thesis by simp
  qed
  from centroid zero none empty pair show ?thesis by blast
qed

lemma two_example_store_rows:
  "labeled_emails two_example_store =
     [example_row,
      \<lparr>message_id = ''m2'', subject = Some ''Receipt'', sender = None, snippet = None,
       applied_label = ''Work'', accepted = False\<rparr>]"
  by (simp add: two_example_store_def labelled_store_simps example_row_def)

lemma two_example_store_simps:
  "dim two_example_store = 384" "model two_example_store = Some example_encoder"
  by (simp_all add: two_example_store_def upsert_labeled_email_def labelled_store_simps)

lemma two_example_store_embeddings:
  "row_embedding rt two_example_store example_row = unit_normalize (map (basis 0) [0..<384])"
  "row_embedding rt two_example_store
     \<lparr>message_id = ''m2'', subject = Some ''Receipt'', sender = None, snippet = None,
      applied_label = ''Work'', accepted = False\<rparr> = unit_normalize (map (basis 1) [0..<384])"
  by (simp_all add: row_embedding_def example_row_text embed_example two_example_store_simps)

lemma processed_store_simps:
  "labeled_emails processed_store =
     [\<lparr>message_id = ''m1'', subject = None, sender = None, snippet = None,
       applied_label = ''Work'', accepted = True\<rparr>]"
  "dim processed_store = 384"
  by (simp_all add: processed_store_def mark_email_processed_def Let_def init_store_def
      sql_insert_or_replace_def)

lemma processed_store_zero_mean:
  "np_norm (weighted_mean (label_examples rt processed_store ''Work''
              (labeled_emails processed_store))) = 0"
proof -
  have "label_examples rt processed_store ''Work'' (labeled_emails processed_store) =
        [(replicate 384 0, 5)]"
    by (simp add: label_examples_def processed_store_simps row_embedding_def joined_text_def
        truthy_strings_def)
  then show ?thesis
    by (simp add: weighted_mean_def vscale_def np_norm_def)
qed

theorem label_centroids_weighted_mean_witness:
  "''Work'' \<in> applied_label ` set (labeled_emails two_example_store)
   \<and> map_of (get_label_centroids example_runtime two_example_store) ''Work'' =
       Some (unit_normalize (vadd (vscale (5 / 6) (unit_normalize (map (basis 0) [0..<384])))
                                  (vscale (1 / 6) (unit_normalize (map (basis 1) [0..<384])))))
   \<and> np_dot (unit_normalize (vadd (vscale (5 / 6) (unit_normalize (map (basis 0) [0..<384])))
                                   (vscale (1 / 6) (unit_normalize (map (basis 1) [0..<384])))))
         (unit_normalize (map (basis 0) [0..<384])) =
       5 * np_dot (unit_normalize (vadd (vscale (5 / 6) (unit_normalize (map (basis 0) [0..<384])))
                                        (vscale (1 / 6) (unit_normalize (map (basis 1) [0..<384])))))
             (unit_normalize (map (basis 1) [0..<384]))
   \<and> map_of (get_label_centroids example_runtime two_example_store) ''Home'' = None
   \<and> map_of (get_label_centroids example_runtime processed_store) ''Work'' =
       Some (replicate 384 0)
   \<and> get_label_centroids example_runtime (init_store (Some example_encoder)) = []"
proof -
  let ?b = "\<lparr>message_id = ''m2'', subject = Some ''Receipt'', sender = None, snippet = None,
             applied_label = ''Work'', accepted = False\<rparr>"
  have w: "''Work'' \<in> applied_label ` set (labeled_emails two_example_store)"
    by (simp add: two_example_store_rows)
  have h: "''Home'' \<notin> applied_label ` set (labeled_emails two_example_store)"
    by (simp add: two_example_store_rows example_row_def)
  have p: "filter (\<lambda>r. applied_label r = ''Work'') (labeled_emails two_example_store)
             = [example_row, ?b]
      \<and> accepted example_row \<and> \<not> accepted ?b
      \<and> np_dot (row_embedding example_runtime two_example_store example_row)
           (row_embedding example_runtime two_example_store ?b) = 0
      \<and> np_dot (row_embedding example_runtime two_example_store example_row)
           (row_embedding example_runtime two_example_store example_row) =
          np_dot (row_embedding example_runtime two_example_store ?b)
           (row_embedding example_runtime two_example_store ?b)"
    by (simp add: two_example_store_rows two_example_store_embeddings np_dot_unit_normalize
        np_dot_basis np_norm_basis) (simp add: example_row_def)
  have pw: "''Work'' \<in> applied_label ` set (labeled_emails processed_store)"
    by (simp add: processed_store_simps)
  have e: "labeled_emails (init_store (Some example_encoder)) = []"
    by (simp add: init_store_def)
  note a = label_centroids_weighted_mean [of "''Work''" two_example_store example_runtime example_row ?b]
  note b = label_centroids_weighted_mean [of "''Home''" two_example_store example_runtime example_row ?b]
  note c = label_centroids_weighted_mean [of "''Work''" processed_store example_runtime example_row ?b]
  note d = label_centroids_weighted_mean [of "''Work''" "init_store (Some example_encoder)"
      example_runtime example_row ?b]
  have one: "map_of (get_label_centroids example_runtime two_example_store) ''Work'' =
       Some (unit_normalize (vadd (vscale (5 / 6) (unit_normalize (map (basis 0) [0..<384])))
                                  (vscale (1 / 6) (unit_normalize (map (basis 1) [0..<384])))))
     \<and> np_dot (unit_normalize (vadd (vscale (5 / 6) (unit_normalize (map (basis 0) [0..<384])))
                                   (vscale (1 / 6) (unit_normalize (map (basis 1) [0..<384])))))
         (unit_normalize (map (basis 0) [0..<384])) =
       5 * np_dot (unit_normalize (vadd (vscale (5 / 6) (unit_normalize (map (basis 0) [0..<384])))
                                        (vscale (1 / 6) (unit_normalize (map (basis 1) [0..<384])))))
             (unit_normalize (map (basis 1) [0..<384]))"
    using a [THEN conjunct2, THEN conjunct2, THEN conjunct2, THEN mp, OF p]
    by (simp only: two_example_store_embeddings)
  have two: "map_of (get_label_centroids example_runtime two_example_store) ''Home'' = None"
    by (rule b [THEN conjunct2, THEN conjunct1, THEN mp, OF h])
  have three: "map_of (get_label_centroids example_runtime processed_store) ''Work'' =
       Some (replicate 384 0)"
    using c [THEN conjunct1, THEN mp, OF pw, THEN conjunct2, THEN mp,
        OF processed_store_zero_mean]
    by (simp add: processed_store_simps)
  have four: "get_label_centroids example_runtime (init_store (Some example_encoder)) = []"
    by (rule d [THEN conjunct2, THEN conjunct2, THEN conjunct1, THEN mp, OF e])
  from w one two three four show ?thesis by (intro conjI) simp_all
qed

text \<open>
  As stated, the claim asks for a vector of unit length. After
  \<^verbatim>\<open>mark_email_processed\<close> on a fresh store the only example of \<^verbatim>\<open>Work\<close> has no text, and
  the centroid of \<^verbatim>\<open>Work\<close> is the zero vector.
\<close>

theorem label_centroids_counterexample:
  "get_label_centroids example_runtime processed_store = [(''Work'', replicate 384 0)]
   \<and> np_norm (replicate 384 0) = 0"
proof -
  have "row_embedding example_runtime processed_store
          \<lparr>message_id = ''m1'', subject = None, sender = None, snippet = None,
           applied_label = ''Work'', accepted = True\<rparr> = replicate 384 0"
    by (simp add: row_embedding_def joined_text_def truthy_strings_def processed_store_simps)
  then have "get_label_centroids example_runtime processed_store =
             [(''Work'', centroid_of [(replicate 384 0, 5)])]"
    by (simp add: get_label_centroids_def accumulate_def accum_append_def processed_store_simps)
  then show ?thesis by (simp add: centroid_of_single)
qed

section \<open>The fallback embedding\<close>

lemma embed_fallback:
  "model st = None \<Longrightarrow> text \<noteq> [] \<Longrightarrow>
   embed rt st text =
     unit_normalize (map (rng_normal rt (nat (\<bar>hash_str rt text\<bar> mod 2 ^ 32))) [0..<dim st])"
  by (simp add: embed_def model_encode_def fallback_embed_def fallback_seed_def)

lemma unit_normalize_basis_distinct:
  assumes "j < n" "k < n" "j \<noteq> k"
  shows "unit_normalize (map (basis j) [0..<n]) \<noteq> unit_normalize (map (basis k) [0..<n])"
proof
  assume eq: "unit_normalize (map (basis j) [0..<n]) = unit_normalize (map (basis k) [0..<n])"
  have "np_dot (unit_normalize (map (basis j) [0..<n])) (map (basis j) [0..<n]) = 1 / (1 + eps)"
    using assms by (simp add: np_dot_unit_normalize np_dot_basis np_norm_basis)
  moreover have "np_dot (unit_normalize (map (basis k) [0..<n])) (map (basis j) [0..<n]) = 0"
    using assms by (simp add: np_dot_unit_normalize np_dot_basis np_norm_basis)
  ultimately have "1 / (1 + eps) = 0" using eq by simp
  then show False using eps_pos by simp
qed

text \<open>
  Claim C6. The claim asks that the fallback vector of a text is the same in every run.
  The code seeds the generator with \<^verbatim>\<open>abs(hash(text)) % (2**32)\<close>, and the string hash of
  the interpreter is a property of the running process. Two runs with the same generator
  whose string hashes differ at the text \<^verbatim>\<open>a\<close> give two different vectors for it.
\<close>

theorem fallback_differs_between_runs:
  "model (init_store None) = None
   \<and> rng_normal first_run = rng_normal second_run
   \<and> embed first_run (init_store None) ''a'' = unit_normalize (map (basis 1) [0..<384])
   \<and> embed second_run (init_store None) ''a'' = unit_normalize (map (basis 2) [0..<384])
   \<and> embed first_run (init_store None) ''a'' \<noteq> embed second_run (init_store None) ''a''"
proof -
  have m: "model (init_store None) = None" "dim (init_store None) = 384"
    by (simp_all add: init_store_def)
  have a: "embed first_run (init_store None) ''a'' = unit_normalize (map (basis 1) [0..<384])"
    by (simp add: embed_fallback m first_run_def)
  have b: "embed second_run (init_store None) ''a'' = unit_normalize (map (basis 2) [0..<384])"
    by (simp add: embed_fallback m second_run_def)
  have "unit_normalize (map (basis 1) [0..<384]) \<noteq> unit_normalize (map (basis 2) [0..<384])"
    by (rule unit_normalize_basis_distinct) simp_all
  with a b m show ?thesis by (simp add: first_run_def second_run_def)
qed

end
